theory Spec2Isabelle
  imports Complex_Main "HOL-Library.Sublist"
begin

section \<open>The Amazon jobs scraper: ledger, filter and scraping cycle\<close>

text \<open>
  A shallow embedding of \<^verbatim>\<open>scraper.py\<close> (class \<^verbatim>\<open>AmazonJobsScraper\<close>).

  \<^item> A raw job record is a JSON object whose fields are strings (the job source's
    identifier, title, location and posted date are): a map from field names to strings,
    a field being present or not. Records of another shape are outside the model.
    Python strings are lists of characters; the model is exact for ASCII text.
  \<^item> The table \<^verbatim>\<open>seen_jobs\<close> is the list of its rows.
  \<^item> Whatever the outside world decides is an explicit input of the function that asks
    for it: the wall clock, what \<^verbatim>\<open>datetime.strptime\<close> makes of a string, whether an
    sqlite statement runs or raises, what the HTTP request to the job source yields,
    whether the HTTP post to Telegram goes through.
  \<^item> Every \<^verbatim>\<open>try\<close> / \<^verbatim>\<open>except\<close> of the source is a case distinction on such an input,
    so a function that swallows its exceptions is a total function here.
  \<^item> Log lines are modelled only where a value is reported by no other way
    (\<^verbatim>\<open>cleanup_old_jobs\<close>).
\<close>

subsection \<open>Strings\<close>

text \<open>\<^verbatim>\<open>str.lower()\<close>, on ASCII letters.\<close>

definition lower_char :: "char \<Rightarrow> char" where
  "lower_char c =
     (case map_of (zip ''ABCDEFGHIJKLMNOPQRSTUVWXYZ'' ''abcdefghijklmnopqrstuvwxyz'') c of
        Some l \<Rightarrow> l
      | None \<Rightarrow> c)"

definition lower :: "string \<Rightarrow> string" where
  "lower s = map lower_char s"

text \<open>\<^verbatim>\<open>keyword in title\<close>: the keyword occurs as a contiguous piece of the title.\<close>

fun py_in :: "string \<Rightarrow> string \<Rightarrow> bool" where
  "py_in keyword [] = (keyword = [])"
| "py_in keyword (c # cs) = (prefix keyword (c # cs) \<or> py_in keyword cs)"

text \<open>\<^verbatim>\<open>d.get(key, default)\<close> on a dictionary.\<close>

definition dict_get :: "(string \<rightharpoonup> string) \<Rightarrow> string \<Rightarrow> string \<Rightarrow> string" where
  "dict_get d key dflt = (case d key of Some v \<Rightarrow> v | None \<Rightarrow> dflt)"

subsection \<open>Dates and times\<close>

text \<open>
  A naive \<^verbatim>\<open>datetime\<close> is the number of microseconds since 0001-01-01T00:00:00 on its
  own time line, a \<^verbatim>\<open>timedelta\<close> a number of microseconds. Subtracting two naive
  datetimes is then integer subtraction, as in Python. \<^verbatim>\<open>total_seconds()\<close> divides by
  \<open>10^6\<close>; the comparison with \<open>24 * 60 * 60\<close> is made on the exact quotient (the
  nearest double of a quotient above 86400 is above 86400 too, the next double after
  86400 being less than a microsecond away).
\<close>

type_synonym datetime = int
type_synonym timedelta = int

definition total_seconds :: "timedelta \<Rightarrow> real" where
  "total_seconds td = real_of_int td / 1000000"

definition us_per_day :: int where
  "us_per_day = 86400000000"

text \<open>The largest ordinal of a date: 9999-12-31.\<close>

definition max_ordinal :: int where
  "max_ordinal = 3652059"

text \<open>
  \<^verbatim>\<open>now - timedelta(days=days_old)\<close>. Both the construction of the timedelta and the
  subtraction raise \<^verbatim>\<open>OverflowError\<close> out of range: the value \<open>None\<close>.
\<close>

definition minus_days :: "datetime \<Rightarrow> int \<Rightarrow> datetime option" where
  "minus_days t days =
     (if days < - 999999999 \<or> 999999999 < days then None
      else let r = t - days * us_per_day
           in if 0 \<le> r \<and> r < max_ordinal * us_per_day then Some r else None)"

definition toordinal :: "datetime \<Rightarrow> int" where
  "toordinal t = t div us_per_day + 1"

definition hour :: "datetime \<Rightarrow> int" where
  "hour t = (t div 3600000000) mod 24"

definition minute :: "datetime \<Rightarrow> int" where
  "minute t = (t div 60000000) mod 60"

definition second :: "datetime \<Rightarrow> int" where
  "second t = (t div 1000000) mod 60"

definition microsecond :: "datetime \<Rightarrow> int" where
  "microsecond t = t mod 1000000"

text \<open>The proleptic Gregorian calendar of Python's \<^verbatim>\<open>datetime\<close> module.\<close>

definition is_leap :: "int \<Rightarrow> bool" where
  "is_leap year = (year mod 4 = 0 \<and> (year mod 100 \<noteq> 0 \<or> year mod 400 = 0))"

definition days_before_year :: "int \<Rightarrow> int" where
  "days_before_year year =
     (let y = year - 1 in y * 365 + y div 4 - y div 100 + y div 400)"

definition DAYS_IN_MONTH :: "int list" where
  "DAYS_IN_MONTH = [-1, 31, 28, 31, 30, 31, 30, 31, 31, 30, 31, 30, 31]"

definition DAYS_BEFORE_MONTH :: "int list" where
  "DAYS_BEFORE_MONTH = [-1, 0, 31, 59, 90, 120, 151, 181, 212, 243, 273, 304, 334]"

definition days_before_month :: "int \<Rightarrow> int \<Rightarrow> int" where
  "days_before_month year month =
     DAYS_BEFORE_MONTH ! nat month + (if month > 2 \<and> is_leap year then 1 else 0)"

definition ymd2ord :: "int \<Rightarrow> int \<Rightarrow> int \<Rightarrow> int" where
  "ymd2ord year month day = days_before_year year + days_before_month year month + day"

definition ord2ymd :: "int \<Rightarrow> int \<times> int \<times> int" where
  "ord2ymd ordinal =
     (let n0 = ordinal - 1;
          n400 = n0 div 146097; r400 = n0 mod 146097;
          n100 = r400 div 36524; r100 = r400 mod 36524;
          n4 = r100 div 1461; r4 = r100 mod 1461;
          n1 = r4 div 365; n = r4 mod 365;
          year = n400 * 400 + 1 + n100 * 100 + n4 * 4 + n1
      in if n1 = 4 \<or> n100 = 4 then (year - 1, 12, 31)
         else
           let leapyear = (n1 = 3 \<and> (n4 \<noteq> 24 \<or> n100 = 3));
               month = (n + 50) div 32;
               preceding = DAYS_BEFORE_MONTH ! nat month
                           + (if month > 2 \<and> leapyear then 1 else 0)
           in if preceding > n
              then (year, month - 1,
                    n - (preceding - (DAYS_IN_MONTH ! nat (month - 1)
                                      + (if month - 1 = 2 \<and> leapyear then 1 else 0))) + 1)
              else (year, month, n - preceding + 1))"

text \<open>A datetime from its fields, for writing down concrete inputs.\<close>

definition mk_datetime :: "int \<Rightarrow> int \<Rightarrow> int \<Rightarrow> int \<Rightarrow> int \<Rightarrow> int \<Rightarrow> int \<Rightarrow> datetime" where
  "mk_datetime year month day h mi s us =
     (ymd2ord year month day - 1) * us_per_day + h * 3600000000 + mi * 60000000 + s * 1000000 + us"

text \<open>Zero-padded decimal numbers (\<^verbatim>\<open>%02d\<close>, \<^verbatim>\<open>%04d\<close>, \<^verbatim>\<open>%06d\<close>).\<close>

definition digit :: "int \<Rightarrow> char" where
  "digit d = ''0123456789'' ! nat d"

definition pad2 :: "int \<Rightarrow> string" where
  "pad2 n = [digit (n div 10 mod 10), digit (n mod 10)]"

definition pad4 :: "int \<Rightarrow> string" where
  "pad4 n = [digit (n div 1000 mod 10), digit (n div 100 mod 10),
             digit (n div 10 mod 10), digit (n mod 10)]"

definition pad6 :: "int \<Rightarrow> string" where
  "pad6 n = [digit (n div 100000 mod 10), digit (n div 10000 mod 10),
             digit (n div 1000 mod 10), digit (n div 100 mod 10),
             digit (n div 10 mod 10), digit (n mod 10)]"

definition date_text :: "datetime \<Rightarrow> string" where
  "date_text t =
     (case ord2ymd (toordinal t) of
        (year, month, day) \<Rightarrow> pad4 year @ ''-'' @ pad2 month @ ''-'' @ pad2 day)"

definition time_text :: "datetime \<Rightarrow> string" where
  "time_text t = pad2 (hour t) @ '':'' @ pad2 (minute t) @ '':'' @ pad2 (second t)"

text \<open>\<^verbatim>\<open>datetime.isoformat()\<close>: \<^verbatim>\<open>YYYY-MM-DDTHH:MM:SS\<close>, then \<^verbatim>\<open>.ffffff\<close> unless the
  microseconds are zero.\<close>

definition isoformat :: "datetime \<Rightarrow> string" where
  "isoformat t =
     date_text t @ ''T'' @ time_text t
     @ (if microsecond t = 0 then [] else ''.'' @ pad6 (microsecond t))"

text \<open>sqlite's \<^verbatim>\<open>CURRENT_TIMESTAMP\<close>: the text \<^verbatim>\<open>YYYY-MM-DD HH:MM:SS\<close> of the UTC time.\<close>

definition current_timestamp :: "datetime \<Rightarrow> string" where
  "current_timestamp utc = date_text utc @ '' '' @ time_text utc"

text \<open>
  sqlite compares two TEXT values under the default collation \<^verbatim>\<open>BINARY\<close>: byte by
  byte, a proper prefix being smaller.
\<close>

fun text_less :: "string \<Rightarrow> string \<Rightarrow> bool" where
  "text_less [] [] = False"
| "text_less [] (y # ys) = True"
| "text_less (x # xs) [] = False"
| "text_less (x # xs) (y # ys) =
     ((of_char x :: nat) < of_char y \<or> (x = y \<and> text_less xs ys))"

subsection \<open>Parsing the posted date\<close>

text \<open>
  \<^verbatim>\<open>datetime.strptime\<close> belongs to the Python library: it is a parameter, a function
  from the string and the format to the parsed datetime, \<open>None\<close> where the library
  raises \<^verbatim>\<open>ValueError\<close>.
\<close>

type_synonym strptime = "string \<Rightarrow> string \<Rightarrow> datetime option"

definition date_formats :: "string list" where
  "date_formats = [''%B %d, %Y'', ''%b %d, %Y'', ''%Y-%m-%d'', ''%m/%d/%Y'']"

text \<open>The loop over the formats: the first one that parses wins.\<close>

fun try_formats :: "strptime \<Rightarrow> string \<Rightarrow> string list \<Rightarrow> datetime option" where
  "try_formats strptime posted_date_str [] = None"
| "try_formats strptime posted_date_str (date_format # more) =
     (case strptime posted_date_str date_format of
        Some posted_date \<Rightarrow> Some posted_date
      | None \<Rightarrow> try_formats strptime posted_date_str more)"

definition is_recent_job :: "strptime \<Rightarrow> datetime \<Rightarrow> string \<Rightarrow> bool" where
  "is_recent_job strptime now posted_date_str =
     (case try_formats strptime posted_date_str date_formats of
        None \<Rightarrow> False
      | Some posted_date \<Rightarrow>
          (let time_diff = now - posted_date
           in total_seconds time_diff \<le> 24 * 60 * 60))"

subsection \<open>The ledger: table \<^verbatim>\<open>seen_jobs\<close>\<close>

text \<open>
  A row of the table has the columns \<^verbatim>\<open>job_id\<close> (the primary key), \<^verbatim>\<open>title\<close>,
  \<^verbatim>\<open>location\<close>, \<^verbatim>\<open>posted_date\<close> and \<^verbatim>\<open>created_at\<close>; the dictionary the filter builds
  for a job has the first four and \<^verbatim>\<open>url\<close>.
\<close>

record job_core =
  job_id :: string
  title :: string
  location :: string
  posted_date :: string

record job_data = job_core +
  url :: string

record seen_job = job_core +
  created_at :: string

text \<open>What an sqlite call does: it runs, or it raises and the method's handler takes
  over.\<close>

datatype sqlite = Sqlite_ok | Sqlite_error

definition is_job_seen :: "sqlite \<Rightarrow> seen_job list \<Rightarrow> string \<Rightarrow> bool" where
  "is_job_seen q db jid =
     (case q of
        Sqlite_ok \<Rightarrow> list_ex (\<lambda>row. job_id row = jid) db
      | Sqlite_error \<Rightarrow> False)"

text \<open>
  \<^verbatim>\<open>INSERT OR REPLACE\<close>: a row with the same primary key is deleted, then the new row
  is inserted; \<^verbatim>\<open>created_at\<close> is not among the inserted columns and takes its default,
  \<^verbatim>\<open>CURRENT_TIMESTAMP\<close>. When sqlite raises, nothing is committed.
\<close>

definition mark_job_as_seen :: "sqlite \<Rightarrow> datetime \<Rightarrow> job_data \<Rightarrow> seen_job list \<Rightarrow> seen_job list" where
  "mark_job_as_seen q utc_now job db =
     (case q of
        Sqlite_ok \<Rightarrow>
          filter (\<lambda>row. job_id row \<noteq> job_id job) db
          @ [\<lparr>job_id = job_id job, title = title job, location = location job,
               posted_date = posted_date job, created_at = current_timestamp utc_now\<rparr>]
      | Sqlite_error \<Rightarrow> db)"

datatype log_line = Cleaned_up nat | Error_cleaning_up

text \<open>
  What \<^verbatim>\<open>cleanup_old_jobs\<close> leaves behind: the table, the lines it logged, and the value
  it returned to its caller. The method has no \<^verbatim>\<open>return\<close> statement, so it returns
  Python's \<^verbatim>\<open>None\<close>: the value \<open>None\<close> here, where \<open>Some n\<close> would be a number.
\<close>

record cleanup_result =
  table :: "seen_job list"
  logged :: "log_line list"
  returned :: "nat option"

definition cleanup_old_jobs :: "sqlite \<Rightarrow> datetime \<Rightarrow> int \<Rightarrow> seen_job list \<Rightarrow> cleanup_result" where
  "cleanup_old_jobs q now days_old db =
     (case q of
        Sqlite_error \<Rightarrow> \<lparr>table = db, logged = [Error_cleaning_up], returned = None\<rparr>
      | Sqlite_ok \<Rightarrow>
          (case minus_days now days_old of
             None \<Rightarrow> \<lparr>table = db, logged = [Error_cleaning_up], returned = None\<rparr>
           | Some cutoff_date \<Rightarrow>
               (let deleted_count =
                      length (filter (\<lambda>row. text_less (created_at row) (isoformat cutoff_date)) db)
                in \<lparr>table = filter (\<lambda>row. \<not> text_less (created_at row) (isoformat cutoff_date)) db,
                    logged = (if deleted_count > 0 then [Cleaned_up deleted_count] else []),
                    returned = None\<rparr>)))"

subsection \<open>The fetcher\<close>

text \<open>
  What the request to the job source comes to: one of the exceptions the method handles
  (\<open>Request_exception\<close> covers the failed connection, the timeout and the HTTP error
  status; \<open>Unexpected_exception\<close> stands for every exception the two named handlers do
  not take, as for a body that is no JSON object), or a JSON object, given by the list
  of records under its key \<^verbatim>\<open>jobs\<close> if it has that key.
\<close>

type_synonym raw_job = "string \<rightharpoonup> string"

datatype http_response =
  Request_exception
| Json_decode_error
| Unexpected_exception
| Payload "raw_job list option"

fun fetch_jobs :: "http_response \<Rightarrow> raw_job list" where
  "fetch_jobs (Payload data) = (case data of Some jobs \<Rightarrow> jobs | None \<Rightarrow> [])"
| "fetch_jobs Request_exception = []"
| "fetch_jobs Json_decode_error = []"
| "fetch_jobs Unexpected_exception = []"

subsection \<open>The outside world of one scraping cycle\<close>

text \<open>What the HTTP post to Telegram does: it goes through, or something in the
  method raises and its handler returns \<^verbatim>\<open>False\<close>.\<close>

datatype post = Post_ok | Post_exception

text \<open>
  Everything one cycle asks of the outside world. The raw records of the fetched list
  are numbered from 0, and so are the jobs the filter returns: \<open>clock env i\<close> is what
  \<^verbatim>\<open>datetime.now()\<close> gives when the date of raw record \<open>i\<close> is checked and
  \<open>select_result env i\<close> what becomes of the \<^verbatim>\<open>SELECT\<close> for it; \<open>post_result env k\<close> is
  the outcome of the post for new job \<open>k\<close>, \<open>insert_result env k\<close> that of its
  \<^verbatim>\<open>INSERT OR REPLACE\<close> and \<open>utc_clock env k\<close> the \<^verbatim>\<open>CURRENT_TIMESTAMP\<close> of that insert.
  The condition before the cleanup reads the clock twice, the cleanup once more.
\<close>

record env =
  get_result :: http_response
  clock :: "nat \<Rightarrow> datetime"
  select_result :: "nat \<Rightarrow> sqlite"
  post_result :: "nat \<Rightarrow> post"
  insert_result :: "nat \<Rightarrow> sqlite"
  utc_clock :: "nat \<Rightarrow> datetime"
  clock_hour :: datetime
  clock_minute :: datetime
  clock_cleanup :: datetime
  delete_result :: sqlite

subsection \<open>The filter\<close>

text \<open>
  The loop of \<^verbatim>\<open>filter_sde1_jobs\<close>, with its three \<^verbatim>\<open>continue\<close> statements and the
  list \<^verbatim>\<open>filtered_jobs\<close> it appends to. No statement of the loop body raises on a
  record whose fields are strings (\<^verbatim>\<open>is_recent_job\<close> and \<^verbatim>\<open>is_job_seen\<close> handle their
  own exceptions), so the handler around the body is never entered.
\<close>

fun filter_loop :: "strptime \<Rightarrow> env \<Rightarrow> seen_job list \<Rightarrow> nat \<Rightarrow> raw_job list \<Rightarrow> job_data list \<Rightarrow> job_data list" where
  "filter_loop strptime env db i [] filtered_jobs = filtered_jobs"
| "filter_loop strptime env db i (job # jobs) filtered_jobs =
     (let title_lower = lower (dict_get job ''title'' '''');
          jid = dict_get job ''id_icims'' ''''
      in if \<not> list_ex (\<lambda>keyword. py_in keyword title_lower)
                 [''sde 1'', ''software development engineer i'', ''sde i'']
         then filter_loop strptime env db (Suc i) jobs filtered_jobs
         else
           let posted = dict_get job ''posted_date'' ''''
           in if \<not> is_recent_job strptime (clock env i) posted
              then filter_loop strptime env db (Suc i) jobs filtered_jobs
              else if is_job_seen (select_result env i) db jid
              then filter_loop strptime env db (Suc i) jobs filtered_jobs
              else filter_loop strptime env db (Suc i) jobs
                     (filtered_jobs @
                      [\<lparr>job_id = jid,
                        title = dict_get job ''title'' ''N/A'',
                        location = dict_get job ''location'' ''N/A'',
                        posted_date = posted,
                        url = ''https://www.amazon.jobs/en/jobs/'' @ jid @ ''/apply''\<rparr>]))"

definition filter_sde1_jobs :: "strptime \<Rightarrow> env \<Rightarrow> seen_job list \<Rightarrow> raw_job list \<Rightarrow> job_data list" where
  "filter_sde1_jobs strptime env db jobs = filter_loop strptime env db 0 jobs []"

subsection \<open>The notifier and the cycle\<close>

text \<open>The message text plays no part in what follows; the method's result is whether
  the post went through.\<close>

definition send_telegram_notification :: "post \<Rightarrow> job_data \<Rightarrow> bool" where
  "send_telegram_notification p job = (case p of Post_ok \<Rightarrow> True | Post_exception \<Rightarrow> False)"

text \<open>
  The state a cycle works on: the table of the ledger, and the calls of
  \<^verbatim>\<open>send_telegram_notification\<close> so far, each with the job and the result. The pause of
  one second after a successful post changes neither.
\<close>

record world =
  seen_jobs :: "seen_job list"
  telegram :: "(job_data \<times> bool) list"

fun notify_loop :: "env \<Rightarrow> nat \<Rightarrow> job_data list \<Rightarrow> world \<Rightarrow> world" where
  "notify_loop env k [] w = w"
| "notify_loop env k (job # new_jobs) w =
     (if send_telegram_notification (post_result env k) job
      then notify_loop env (Suc k) new_jobs
             \<lparr>seen_jobs = mark_job_as_seen (insert_result env k) (utc_clock env k) job (seen_jobs w),
              telegram = telegram w @ [(job, True)]\<rparr>
      else notify_loop env (Suc k) new_jobs
             \<lparr>seen_jobs = seen_jobs w, telegram = telegram w @ [(job, False)]\<rparr>)"

text \<open>
  One cycle. Every method it calls handles its own exceptions, so the handler around
  the whole body is never entered and the cycle always returns.
\<close>

definition run_scraping_cycle :: "strptime \<Rightarrow> env \<Rightarrow> world \<Rightarrow> world" where
  "run_scraping_cycle strptime env w =
     (let jobs = fetch_jobs (get_result env)
      in if jobs = [] then w
         else
           let new_jobs = filter_sde1_jobs strptime env (seen_jobs w) jobs
           in if new_jobs = [] then w
              else
                let w' = notify_loop env 0 new_jobs w
                in if hour (clock_hour env) = 0 \<and> minute (clock_minute env) < 15
                   then \<lparr>seen_jobs = table (cleanup_old_jobs (delete_result env) (clock_cleanup env)
                                               30 (seen_jobs w')),
                         telegram = telegram w'\<rparr>
                   else w')"

subsection \<open>The properties in the words of the design\<close>

text \<open>The role keywords, and a title that contains one of them, whatever the case of
  its letters.\<close>

definition sde1_keywords :: "string list" where
  "sde1_keywords = [''sde 1'', ''software development engineer i'', ''sde i'']"

definition role_match :: "raw_job \<Rightarrow> bool" where
  "role_match job =
     (\<exists>keyword \<in> set sde1_keywords. sublist keyword (lower (dict_get job ''title'' '''')))"

text \<open>The identifiers the ledger holds.\<close>

definition ledger_ids :: "seen_job list \<Rightarrow> string set" where
  "ledger_ids db = job_id ` set db"

text \<open>The identifier of a raw record: the empty string when the field is missing.\<close>

definition raw_id :: "raw_job \<Rightarrow> string" where
  "raw_id job = dict_get job ''id_icims'' ''''"

text \<open>Fresh at the time \<open>now\<close>: the posted date parses, and lies at most 24 hours
  before \<open>now\<close>.\<close>

definition fresh :: "strptime \<Rightarrow> datetime \<Rightarrow> raw_job \<Rightarrow> bool" where
  "fresh strptime now job = is_recent_job strptime now (dict_get job ''posted_date'' '''')"

text \<open>The job a raw record is mapped to.\<close>

definition to_job_data :: "raw_job \<Rightarrow> job_data" where
  "to_job_data job =
     \<lparr>job_id = raw_id job,
      title = dict_get job ''title'' ''N/A'',
      location = dict_get job ''location'' ''N/A'',
      posted_date = dict_get job ''posted_date'' '''',
      url = ''https://www.amazon.jobs/en/jobs/'' @ raw_id job @ ''/apply''\<rparr>"

text \<open>
  The three conditions on raw record \<open>i\<close> of a pass. The third is what the lookup
  reports: the identifier counts as seen when the \<^verbatim>\<open>SELECT\<close> runs and finds it.
\<close>

definition notifiable :: "strptime \<Rightarrow> env \<Rightarrow> seen_job list \<Rightarrow> nat \<times> raw_job \<Rightarrow> bool" where
  "notifiable strptime env db p =
     (case p of (i, job) \<Rightarrow>
        role_match job \<and> fresh strptime (clock env i) job
        \<and> \<not> (select_result env i = Sqlite_ok \<and> raw_id job \<in> ledger_ids db))"

text \<open>The raw records a pass keeps, each with its position in the list.\<close>

definition kept :: "strptime \<Rightarrow> env \<Rightarrow> seen_job list \<Rightarrow> raw_job list \<Rightarrow> (nat \<times> raw_job) list" where
  "kept strptime env db jobs = filter (notifiable strptime env db) (enumerate 0 jobs)"

text \<open>The row that \<^verbatim>\<open>mark_job_as_seen\<close> inserts for a job at a given UTC time.\<close>

definition inserted_row :: "datetime \<Rightarrow> job_data \<Rightarrow> seen_job" where
  "inserted_row utc job =
     \<lparr>job_id = job_id job, title = title job, location = location job,
      posted_date = posted_date job, created_at = current_timestamp utc\<rparr>"

text \<open>The calendar date of a timestamp text: its first ten characters,
  \<^verbatim>\<open>YYYY-MM-DD\<close>.\<close>

definition date_part :: "string \<Rightarrow> string" where
  "date_part s = take 10 s"

subsection \<open>Concrete inputs\<close>

text \<open>
  The library's parser on the date string used in the examples below: the string is of
  the first format of the list. Every other string is rejected.
\<close>

definition example_strptime :: strptime where
  "example_strptime s fmt =
     (if fmt = ''%B %d, %Y'' \<and> s = ''January 15, 2024'' then Some (mk_datetime 2024 1 15 0 0 0 0)
      else None)"

text \<open>A raw record of an SDE-1 job posted on 15 January 2024, and one of a manager's
  job posted the same day.\<close>

definition job_a :: raw_job where
  "job_a = [''id_icims'' \<mapsto> ''2532117'', ''title'' \<mapsto> ''Software Development Engineer I'',
            ''location'' \<mapsto> ''Seattle, WA, USA'', ''posted_date'' \<mapsto> ''January 15, 2024'']"

definition job_m :: raw_job where
  "job_m = [''id_icims'' \<mapsto> ''2540001'', ''title'' \<mapsto> ''Software Development Manager, AWS'',
            ''location'' \<mapsto> ''Austin, TX, USA'', ''posted_date'' \<mapsto> ''January 15, 2024'']"

text \<open>The row the ledger holds for the first job once it was recorded at 17:30:00 UTC
  that day.\<close>

definition row_a :: seen_job where
  "row_a = \<lparr>job_id = ''2532117'', title = ''Software Development Engineer I'',
            location = ''Seattle, WA, USA'', posted_date = ''January 15, 2024'',
            created_at = ''2024-01-15 17:30:00''\<rparr>"

text \<open>
  A cycle at 09:30 local time (17:30 UTC) on 15 January 2024 in which the job source
  answers with the one SDE-1 record and nothing fails.
\<close>

definition example_env :: env where
  "example_env =
     \<lparr>get_result = Payload (Some [job_a]),
      clock = (\<lambda>i. mk_datetime 2024 1 15 9 30 0 0),
      select_result = (\<lambda>i. Sqlite_ok),
      post_result = (\<lambda>k. Post_ok),
      insert_result = (\<lambda>k. Sqlite_ok),
      utc_clock = (\<lambda>k. mk_datetime 2024 1 15 17 30 0 0),
      clock_hour = mk_datetime 2024 1 15 9 30 2 0,
      clock_minute = mk_datetime 2024 1 15 9 30 2 0,
      clock_cleanup = mk_datetime 2024 1 15 9 30 2 0,
      delete_result = Sqlite_ok\<rparr>"

text \<open>The same cycle with every \<^verbatim>\<open>SELECT\<close> of the filter raising.\<close>

definition failing_lookup_env :: env where
  "failing_lookup_env = example_env\<lparr>select_result := (\<lambda>i. Sqlite_error)\<rparr>"

text \<open>
  A second raw record with the identifier of the first, under another title; and a cycle
  in which the job source answers with both, the post for the first fails and the post
  for the second goes through.
\<close>

definition job_a2 :: raw_job where
  "job_a2 = [''id_icims'' \<mapsto> ''2532117'', ''title'' \<mapsto> ''SDE I, Alexa Shopping'',
             ''location'' \<mapsto> ''Seattle, WA, USA'', ''posted_date'' \<mapsto> ''January 15, 2024'']"

definition row_a2 :: seen_job where
  "row_a2 = \<lparr>job_id = ''2532117'', title = ''SDE I, Alexa Shopping'',
             location = ''Seattle, WA, USA'', posted_date = ''January 15, 2024'',
             created_at = ''2024-01-15 17:30:00''\<rparr>"

definition duplicate_env :: env where
  "duplicate_env =
     example_env\<lparr>get_result := Payload (Some [job_a, job_a2]),
                 post_result := (\<lambda>k. if k = 0 then Post_exception else Post_ok)\<rparr>"

text \<open>A raw record of an SDE-1 job that lacks the field \<^verbatim>\<open>id_icims\<close>, and the row the
  ledger holds once that job was recorded.\<close>

definition job_noid :: raw_job where
  "job_noid = [''title'' \<mapsto> ''SDE 1, Kindle'', ''location'' \<mapsto> ''Chennai, IND'',
               ''posted_date'' \<mapsto> ''January 15, 2024'']"

definition row_noid :: seen_job where
  "row_noid = \<lparr>job_id = '''', title = ''SDE 1, Kindle'', location = ''Chennai, IND'',
               posted_date = ''January 15, 2024'', created_at = ''2024-01-15 17:30:00''\<rparr>"

text \<open>
  Two more rows: one recorded on 1 December 2023 at 08:00:00 UTC, one recorded on
  16 December 2023 at 23:00:00 UTC.
\<close>

definition row_old :: seen_job where
  "row_old = \<lparr>job_id = ''2498800'', title = ''SDE I, Prime Video'',
              location = ''London, GBR'', posted_date = ''December 1, 2023'',
              created_at = current_timestamp (mk_datetime 2023 12 1 8 0 0 0)\<rparr>"

definition row_late :: seen_job where
  "row_late = \<lparr>job_id = ''2510406'', title = ''Software Development Engineer I'',
               location = ''Dublin, IRL'', posted_date = ''December 16, 2023'',
               created_at = current_timestamp (mk_datetime 2023 12 16 23 0 0 0)\<rparr>"

section \<open>Properties\<close>

subsection \<open>Auxiliary facts\<close>

lemma py_in_sublist: "py_in keyword t = sublist keyword t"
  by (induction t) (auto simp: sublist_Cons_right)

lemma list_ex_keywords_role_match:
  "list_ex (\<lambda>keyword. py_in keyword (lower (dict_get job ''title'' '''')))
     [''sde 1'', ''software development engineer i'', ''sde i''] = role_match job"
  by (simp add: role_match_def sde1_keywords_def py_in_sublist)

lemma is_job_seen_iff:
  "is_job_seen q db jid = (q = Sqlite_ok \<and> jid \<in> ledger_ids db)"
  by (cases q) (auto simp: is_job_seen_def ledger_ids_def list_ex_iff)

text \<open>The loop of the filter appends, in the order of the list, the jobs of the records
  that meet the three conditions.\<close>

lemma filter_loop_kept:
  "filter_loop strptime env db i jobs acc =
     acc @ map (to_job_data \<circ> snd) (filter (notifiable strptime env db) (enumerate i jobs))"
proof (induction jobs arbitrary: i acc)
  case Nil
  then show ?case by simp
next
  case (Cons job jobs)
  show ?case
    by (simp add: Cons.IH Let_def list_ex_keywords_role_match [simplified] is_job_seen_iff
        notifiable_def fresh_def to_job_data_def raw_id_def)
qed

lemma filter_sde1_jobs_eq:
  "filter_sde1_jobs strptime env db jobs = map (to_job_data \<circ> snd) (kept strptime env db jobs)"
  by (simp add: filter_sde1_jobs_def filter_loop_kept kept_def)

lemma in_kept_iff:
  "(i, job) \<in> set (kept strptime env db jobs) \<longleftrightarrow>
     i < length jobs \<and> jobs ! i = job \<and> notifiable strptime env db (i, job)"
  by (auto simp: kept_def in_set_enumerate_eq)

lemma job_id_to_job_data: "job_id (to_job_data job) = raw_id job"
  by (simp add: to_job_data_def)

lemma ledger_ids_mark_ok:
  "ledger_ids (mark_job_as_seen Sqlite_ok utc job db) = insert (job_id job) (ledger_ids db)"
  by (auto simp: mark_job_as_seen_def ledger_ids_def)

subsection \<open>The concrete inputs, evaluated\<close>

lemmas calendar_defs =
  mk_datetime_def ymd2ord_def days_before_year_def days_before_month_def
  DAYS_BEFORE_MONTH_def DAYS_IN_MONTH_def is_leap_def us_per_day_def

lemma mk_2024_1_15:
  "mk_datetime 2024 1 15 h mi s us =
     63840873600000000 + h * 3600000000 + mi * 60000000 + s * 1000000 + us"
  by (simp add: calendar_defs)

lemma timestamp_example:
  "current_timestamp (mk_datetime 2024 1 15 17 30 0 0) = ''2024-01-15 17:30:00''"
  by (simp add: current_timestamp_def date_text_def time_text_def mk_2024_1_15 toordinal_def
      us_per_day_def ord2ymd_def DAYS_BEFORE_MONTH_def DAYS_IN_MONTH_def Let_def
      pad2_def pad4_def digit_def hour_def minute_def second_def)

lemma recent_a:
  "is_recent_job example_strptime (mk_datetime 2024 1 15 9 30 0 0) ''January 15, 2024''"
  by (simp add: is_recent_job_def date_formats_def example_strptime_def total_seconds_def
      mk_2024_1_15)

lemma role_match_a: "role_match job_a"
  by (simp add: role_match_def sde1_keywords_def job_a_def dict_get_def lower_def lower_char_def
      flip: py_in_sublist)

lemma not_role_match_m: "\<not> role_match job_m"
  by (simp add: role_match_def sde1_keywords_def job_m_def dict_get_def lower_def lower_char_def
      flip: py_in_sublist)

lemma fresh_a: "fresh example_strptime (mk_datetime 2024 1 15 9 30 0 0) job_a"
  using recent_a by (simp add: fresh_def job_a_def dict_get_def)

lemma raw_id_a: "raw_id job_a = ''2532117''"
  by (simp add: raw_id_def job_a_def dict_get_def)

lemma to_job_data_a:
  "to_job_data job_a =
     \<lparr>job_id = ''2532117'', title = ''Software Development Engineer I'',
      location = ''Seattle, WA, USA'', posted_date = ''January 15, 2024'',
      url = ''https://www.amazon.jobs/en/jobs/2532117/apply''\<rparr>"
  by (simp add: to_job_data_def raw_id_def job_a_def dict_get_def)

lemma notifiable_a: "notifiable example_strptime example_env [] (i, job_a)"
  using role_match_a fresh_a by (simp add: notifiable_def example_env_def ledger_ids_def)

lemma notifiable_a_select_error:
  "notifiable example_strptime failing_lookup_env db (i, job_a)"
  using role_match_a fresh_a by (simp add: notifiable_def failing_lookup_env_def example_env_def)

lemma filter_example:
  "filter_sde1_jobs example_strptime example_env [] [job_a] = [to_job_data job_a]"
  using notifiable_a by (simp add: filter_sde1_jobs_eq kept_def)

lemma cycle_example:
  "run_scraping_cycle example_strptime example_env \<lparr>seen_jobs = [], telegram = []\<rparr>
     = \<lparr>seen_jobs = [row_a], telegram = [(to_job_data job_a, True)]\<rparr>"
proof -
  have f: "fetch_jobs (get_result example_env) = [job_a]"
    by (simp add: example_env_def)
  have h: "hour (clock_hour example_env) = 9"
    by (simp add: example_env_def hour_def mk_2024_1_15)
  have n: "notify_loop example_env 0 [to_job_data job_a] \<lparr>seen_jobs = [], telegram = []\<rparr>
             = \<lparr>seen_jobs = [row_a], telegram = [(to_job_data job_a, True)]\<rparr>"
    by (simp add: send_telegram_notification_def mark_job_as_seen_def example_env_def
        timestamp_example to_job_data_a row_a_def)
  show ?thesis
    by (simp add: run_scraping_cycle_def f filter_example n h del: notify_loop.simps)
qed

subsection \<open>The filter (claims C1 and C2)\<close>

text \<open>
  Claim C1, as the code has it. For every raw list, \<^verbatim>\<open>filter_sde1_jobs\<close> returns the jobs
  of exactly those records, in the order of the list, that meet three conditions: the
  title contains a role keyword whatever the case of its letters, the posted date is
  fresh, and the lookup in the ledger does not report the identifier as seen, which is
  so when the identifier is absent from the ledger and also when the lookup itself
  fails. In particular a record whose title has no role keyword is left out, whatever
  its date and its identifier. In a pass in which every lookup runs, the third condition
  is that the identifier is absent from the ledger.
\<close>

theorem filter_sde1_jobs_subsequence:
  "filter_sde1_jobs strptime env db jobs
     = map (to_job_data \<circ> snd) (filter (notifiable strptime env db) (enumerate 0 jobs))
   \<and> (\<forall>i < length jobs. \<not> role_match (jobs ! i)
         \<longrightarrow> (i, jobs ! i) \<notin> set (kept strptime env db jobs))
   \<and> ((\<forall>i < length jobs. select_result env i = Sqlite_ok)
         \<longrightarrow> filter_sde1_jobs strptime env db jobs
             = map (to_job_data \<circ> snd)
                 (filter (\<lambda>(i, job). role_match job \<and> fresh strptime (clock env i) job
                                      \<and> raw_id job \<notin> ledger_ids db)
                    (enumerate 0 jobs)))"
proof -
  have "filter (notifiable strptime env db) (enumerate 0 jobs)
          = filter (\<lambda>(i, job). role_match job \<and> fresh strptime (clock env i) job
                                \<and> raw_id job \<notin> ledger_ids db) (enumerate 0 jobs)"
    if "\<forall>i < length jobs. select_result env i = Sqlite_ok"
    using that by (intro filter_cong) (auto simp: notifiable_def in_set_enumerate_eq)
  then show ?thesis
    by (simp add: filter_sde1_jobs_def filter_loop_kept in_kept_iff notifiable_def)
qed

text \<open>
  The filter on the manager's record followed by the SDE-1 record, with both lookups
  running: the first has no role keyword and is left out, the second is returned.
\<close>

theorem filter_sde1_jobs_subsequence_witness:
  "\<not> role_match ([job_m, job_a] ! 0)
   \<and> (0, [job_m, job_a] ! 0) \<notin> set (kept example_strptime example_env [] [job_m, job_a])
   \<and> select_result example_env 0 = Sqlite_ok \<and> select_result example_env 1 = Sqlite_ok
   \<and> filter_sde1_jobs example_strptime example_env [] [job_m, job_a] = [to_job_data job_a]"
proof -
  have m: "\<not> role_match ([job_m, job_a] ! 0)"
    using not_role_match_m by simp
  have s: "select_result example_env i = Sqlite_ok" for i
    by (simp add: example_env_def)
  have "fresh example_strptime (clock example_env (Suc 0)) job_a"
    using fresh_a by (simp add: example_env_def)
  then have e: "filter (\<lambda>(i, job). role_match job \<and> fresh example_strptime (clock example_env i) job
                                \<and> raw_id job \<notin> ledger_ids []) (enumerate 0 [job_m, job_a])
               = [(Suc 0, job_a)]"
    using not_role_match_m role_match_a by (simp add: ledger_ids_def)
  note inst = filter_sde1_jobs_subsequence [of example_strptime example_env "[]" "[job_m, job_a]"]
  from inst s have
    "filter_sde1_jobs example_strptime example_env [] [job_m, job_a]
       = map (to_job_data \<circ> snd)
           (filter (\<lambda>(i, job). role_match job \<and> fresh example_strptime (clock example_env i) job
                                \<and> raw_id job \<notin> ledger_ids []) (enumerate 0 [job_m, job_a]))"
    by blast
  then have "filter_sde1_jobs example_strptime example_env [] [job_m, job_a] = [to_job_data job_a]"
    unfolding e by simp
  moreover from inst m
  have "(0, [job_m, job_a] ! 0) \<notin> set (kept example_strptime example_env [] [job_m, job_a])"
    by blast
  ultimately show ?thesis
    using m s by simp
qed

text \<open>
  Claim C1 as stated fails where the lookup fails. The ledger holds the identifier of the
  SDE-1 record, the \<^verbatim>\<open>SELECT\<close> of \<^verbatim>\<open>is_job_seen\<close> raises, the handler answers
  \<^verbatim>\<open>False\<close>, and the filter returns the job although its identifier is not absent from
  the ledger.
\<close>

theorem filter_keeps_recorded_counterexample:
  "raw_id job_a \<in> ledger_ids [row_a]
   \<and> role_match job_a
   \<and> fresh example_strptime (clock example_env 0) job_a
   \<and> filter_sde1_jobs example_strptime failing_lookup_env
        [row_a] [job_a] = [to_job_data job_a]"
proof -
  have "raw_id job_a \<in> ledger_ids [row_a]"
    by (simp add: raw_id_a ledger_ids_def row_a_def)
  moreover have "fresh example_strptime (clock example_env 0) job_a"
    using fresh_a by (simp add: example_env_def)
  moreover have
    "filter_sde1_jobs example_strptime failing_lookup_env
        [row_a] [job_a] = [to_job_data job_a]"
    using notifiable_a_select_error by (simp add: filter_sde1_jobs_eq kept_def)
  ultimately show ?thesis
    using role_match_a by simp
qed

text \<open>Recording never removes an identifier from the ledger, and the notification loop
  leaves in it the identifier of every job it posted and recorded.\<close>

lemma ledger_ids_mark_mono: "ledger_ids db \<subseteq> ledger_ids (mark_job_as_seen q utc job db)"
proof (cases q)
  case Sqlite_ok
  then show ?thesis
    by (auto simp: ledger_ids_mark_ok)
next
  case Sqlite_error
  then show ?thesis
    by (simp add: mark_job_as_seen_def)
qed

lemma ledger_ids_notify_loop_mono:
  "ledger_ids (seen_jobs w) \<subseteq> ledger_ids (seen_jobs (notify_loop env k new_jobs w))"
proof (induction new_jobs arbitrary: k w)
  case Nil
  then show ?case by simp
next
  case (Cons job new_jobs)
  show ?case
  proof (cases "send_telegram_notification (post_result env k) job")
    case True
    let ?w = "\<lparr>seen_jobs = mark_job_as_seen (insert_result env k) (utc_clock env k) job (seen_jobs w),
               telegram = telegram w @ [(job, True)]\<rparr>"
    have "ledger_ids (seen_jobs w) \<subseteq> ledger_ids (seen_jobs ?w)"
      by (simp add: ledger_ids_mark_mono)
    also have "\<dots> \<subseteq> ledger_ids (seen_jobs (notify_loop env (Suc k) new_jobs ?w))"
      by (rule Cons.IH)
    finally show ?thesis
      using True by simp
  next
    case False
    let ?w = "\<lparr>seen_jobs = seen_jobs w, telegram = telegram w @ [(job, False)]\<rparr>"
    have "ledger_ids (seen_jobs ?w) \<subseteq> ledger_ids (seen_jobs (notify_loop env (Suc k) new_jobs ?w))"
      by (rule Cons.IH)
    then show ?thesis
      using False by simp
  qed
qed

lemma recorded_in_notify_loop:
  "n < length new_jobs \<Longrightarrow> post_result env (k + n) = Post_ok
   \<Longrightarrow> insert_result env (k + n) = Sqlite_ok
   \<Longrightarrow> job_id (new_jobs ! n) \<in> ledger_ids (seen_jobs (notify_loop env k new_jobs w))"
proof (induction new_jobs arbitrary: k n w)
  case Nil
  then show ?case by simp
next
  case (Cons job new_jobs)
  show ?case
  proof (cases n)
    case 0
    let ?w = "\<lparr>seen_jobs = mark_job_as_seen (insert_result env k) (utc_clock env k) job (seen_jobs w),
               telegram = telegram w @ [(job, True)]\<rparr>"
    from 0 Cons.prems have "job_id job \<in> ledger_ids (seen_jobs ?w)"
      by (simp add: ledger_ids_mark_ok)
    then have "job_id job \<in> ledger_ids (seen_jobs (notify_loop env (Suc k) new_jobs ?w))"
      using ledger_ids_notify_loop_mono by blast
    with 0 Cons.prems show ?thesis
      by (simp add: send_telegram_notification_def)
  next
    case (Suc m)
    with Cons.prems have m: "m < length new_jobs" "post_result env (Suc k + m) = Post_ok"
      "insert_result env (Suc k + m) = Sqlite_ok"
      by simp_all
    show ?thesis
      using Cons.IH [OF m] Suc by (simp split: if_splits)
  qed
qed

text \<open>
  Claim C2, as the code has it. A record whose identifier the ledger holds is left out,
  however eligible by title and date, provided the lookup for it runs. So once a job
  has been recorded, a pass over any raw list in which the lookups run returns no job
  with that identifier; and this is so after a notification loop that posted a job and
  recorded it.
\<close>

theorem filter_excludes_recorded:
  "(\<forall>i<length jobs. select_result env i = Sqlite_ok \<longrightarrow> raw_id (jobs ! i) \<in> ledger_ids db
       \<longrightarrow> (i, jobs ! i) \<notin> set (kept strptime env db jobs))
   \<and> ((\<forall>i<length jobs. select_result env i = Sqlite_ok)
       \<longrightarrow> (\<forall>j \<in> set (filter_sde1_jobs strptime env (mark_job_as_seen Sqlite_ok utc job db) jobs).
             job_id j \<noteq> job_id job))
   \<and> ((\<forall>i<length jobs. select_result env i = Sqlite_ok)
       \<longrightarrow> (\<forall>k<length new_jobs. post_result env' k = Post_ok \<and> insert_result env' k = Sqlite_ok
             \<longrightarrow> (\<forall>j \<in> set (filter_sde1_jobs strptime env
                                (seen_jobs (notify_loop env' 0 new_jobs w)) jobs).
                     job_id j \<noteq> job_id (new_jobs ! k))))"
proof -
  have excluded: "job_id j \<notin> ledger_ids db'"
    if "\<forall>i<length jobs. select_result env i = Sqlite_ok"
      and "j \<in> set (filter_sde1_jobs strptime env db' jobs)" for j db'
  proof -
    from that(2) obtain i r where ir: "(i, r) \<in> set (kept strptime env db' jobs)"
      and jr: "j = to_job_data r"
      by (auto simp: filter_sde1_jobs_eq)
    from ir that(1) have "raw_id r \<notin> ledger_ids db'"
      by (simp add: in_kept_iff notifiable_def)
    then show ?thesis
      by (simp add: jr job_id_to_job_data)
  qed
  have one: "(i, jobs ! i) \<notin> set (kept strptime env db jobs)"
    if "select_result env i = Sqlite_ok" "raw_id (jobs ! i) \<in> ledger_ids db" for i
    using that by (simp add: in_kept_iff notifiable_def)
  have two: "job_id j \<noteq> job_id job"
    if "\<forall>i<length jobs. select_result env i = Sqlite_ok"
      and "j \<in> set (filter_sde1_jobs strptime env (mark_job_as_seen Sqlite_ok utc job db) jobs)" for j
    using excluded [OF that] by (auto simp: ledger_ids_mark_ok)
  have three: "job_id j \<noteq> job_id (new_jobs ! k)"
    if "\<forall>i<length jobs. select_result env i = Sqlite_ok" "k < length new_jobs"
      "post_result env' k = Post_ok" "insert_result env' k = Sqlite_ok"
      "j \<in> set (filter_sde1_jobs strptime env (seen_jobs (notify_loop env' 0 new_jobs w)) jobs)"
    for j k
    using excluded [OF that(1,5)] recorded_in_notify_loop [of k new_jobs env' 0 w] that(2-4)
    by auto
  from one two three show ?thesis
    by blast
qed

text \<open>
  With the ledger holding the row of the SDE-1 record and the lookup running, the record
  is left out; and a pass over the same list right after the job was recorded, by itself
  or by the notification loop, returns nothing.
\<close>

theorem filter_excludes_recorded_witness:
  "select_result example_env 0 = Sqlite_ok
   \<and> raw_id ([job_a] ! 0) \<in> ledger_ids [row_a]
   \<and> (0, [job_a] ! 0) \<notin> set (kept example_strptime example_env [row_a] [job_a])
   \<and> filter_sde1_jobs example_strptime example_env
        (mark_job_as_seen Sqlite_ok (mk_datetime 2024 1 15 17 30 0 0) (to_job_data job_a) [])
        [job_a] = []
   \<and> post_result example_env 0 = Post_ok \<and> insert_result example_env 0 = Sqlite_ok
   \<and> filter_sde1_jobs example_strptime example_env
        (seen_jobs (notify_loop example_env 0 [to_job_data job_a] \<lparr>seen_jobs = [], telegram = []\<rparr>))
        [job_a] = []"
proof -
  have ok: "\<forall>i<length [job_a]. select_result example_env i = Sqlite_ok"
    by (simp add: example_env_def)
  have posted: "post_result example_env 0 = Post_ok" "insert_result example_env 0 = Sqlite_ok"
    by (simp_all add: example_env_def)
  have present: "raw_id ([job_a] ! 0) \<in> ledger_ids [row_a]"
    by (simp add: raw_id_a ledger_ids_def row_a_def)
  have empty: "filter_sde1_jobs example_strptime example_env db [job_a] = []"
    if "\<forall>j \<in> set (filter_sde1_jobs example_strptime example_env db [job_a]).
          job_id j \<noteq> job_id (to_job_data job_a)" for db
    using that by (auto simp: filter_sde1_jobs_eq kept_def)
  note inst = filter_excludes_recorded [of "[job_a]" example_env _ example_strptime
      "mk_datetime 2024 1 15 17 30 0 0" "to_job_data job_a" "[to_job_data job_a]" example_env
      "\<lparr>seen_jobs = [], telegram = []\<rparr>"]
  have "filter_sde1_jobs example_strptime example_env
        (mark_job_as_seen Sqlite_ok (mk_datetime 2024 1 15 17 30 0 0) (to_job_data job_a) [])
        [job_a] = []"
    using inst [of "[]"] ok by (intro empty) blast
  moreover have "filter_sde1_jobs example_strptime example_env
        (seen_jobs (notify_loop example_env 0 [to_job_data job_a] \<lparr>seen_jobs = [], telegram = []\<rparr>))
        [job_a] = []"
  proof (rule empty)
    from inst [of "[]"] ok posted
    have "\<forall>k<length [to_job_data job_a]. \<forall>j \<in> set (filter_sde1_jobs example_strptime example_env
        (seen_jobs (notify_loop example_env 0 [to_job_data job_a] \<lparr>seen_jobs = [], telegram = []\<rparr>))
        [job_a]). job_id j \<noteq> job_id ([to_job_data job_a] ! k)"
      by (metis length_Cons less_Suc0 list.size(3))
    then show "\<forall>j \<in> set (filter_sde1_jobs example_strptime example_env
        (seen_jobs (notify_loop example_env 0 [to_job_data job_a] \<lparr>seen_jobs = [], telegram = []\<rparr>))
        [job_a]). job_id j \<noteq> job_id (to_job_data job_a)"
      by simp
  qed
  moreover have "(0, [job_a] ! 0) \<notin> set (kept example_strptime example_env [row_a] [job_a])"
    using inst [of "[row_a]"] ok present by auto
  ultimately show ?thesis
    using ok present posted by simp
qed

text \<open>
  Claim C2 as stated fails where the lookup fails. The first cycle notifies the SDE-1 job
  and records it. When the same raw list is filtered again and the \<^verbatim>\<open>SELECT\<close> raises,
  the job is returned once more, though the ledger holds its identifier.
\<close>

theorem replay_after_failed_lookup_counterexample:
  "run_scraping_cycle example_strptime example_env \<lparr>seen_jobs = [], telegram = []\<rparr>
     = \<lparr>seen_jobs = [row_a], telegram = [(to_job_data job_a, True)]\<rparr>
   \<and> job_id (to_job_data job_a) \<in> ledger_ids [row_a]
   \<and> fetch_jobs (get_result example_env) = [job_a]
   \<and> filter_sde1_jobs example_strptime failing_lookup_env
        [row_a] [job_a] = [to_job_data job_a]"
proof -
  have "job_id (to_job_data job_a) \<in> ledger_ids [row_a]"
    by (simp add: job_id_to_job_data raw_id_a ledger_ids_def row_a_def)
  moreover have
    "filter_sde1_jobs example_strptime failing_lookup_env
        [row_a] [job_a] = [to_job_data job_a]"
    using notifiable_a_select_error by (simp add: filter_sde1_jobs_eq kept_def)
  moreover have "fetch_jobs (get_result example_env) = [job_a]"
    by (simp add: example_env_def)
  ultimately show ?thesis
    using cycle_example by simp
qed

subsection \<open>The fetcher fails (claim C4)\<close>

text \<open>
  Claim C4. When the request to the job source fails, be it a network failure, a body
  that is no JSON or anything else, \<^verbatim>\<open>fetch_jobs\<close> returns the empty list, and the cycle
  returns with the state it was given: no notification was sent and the ledger was not
  written. Both are total functions of what the request came to: nothing is raised.
\<close>

theorem fetch_failure_is_a_no_op_cycle:
  "get_result env \<in> {Request_exception, Json_decode_error, Unexpected_exception}
   \<Longrightarrow> fetch_jobs (get_result env) = []
       \<and> run_scraping_cycle strptime env w = w
       \<and> telegram (run_scraping_cycle strptime env w) = telegram w
       \<and> seen_jobs (run_scraping_cycle strptime env w) = seen_jobs w"
  by (auto simp: run_scraping_cycle_def)

text \<open>A network failure in a cycle that starts with one row in the ledger.\<close>

theorem fetch_failure_is_a_no_op_cycle_witness:
  "get_result (example_env\<lparr>get_result := Request_exception\<rparr>)
     \<in> {Request_exception, Json_decode_error, Unexpected_exception}
   \<and> fetch_jobs (get_result (example_env\<lparr>get_result := Request_exception\<rparr>)) = []
   \<and> run_scraping_cycle example_strptime (example_env\<lparr>get_result := Request_exception\<rparr>)
        \<lparr>seen_jobs = [row_a], telegram = []\<rparr> = \<lparr>seen_jobs = [row_a], telegram = []\<rparr>"
proof -
  have h: "get_result (example_env\<lparr>get_result := Request_exception\<rparr>)
             \<in> {Request_exception, Json_decode_error, Unexpected_exception}"
    by simp
  show ?thesis
    using h fetch_failure_is_a_no_op_cycle [OF h, of example_strptime
        "\<lparr>seen_jobs = [row_a], telegram = []\<rparr>"]
    by simp
qed

subsection \<open>Recording and looking up (claim C5)\<close>

text \<open>
  Claim C5. When neither sqlite call fails, a job that was recorded with
  \<^verbatim>\<open>mark_job_as_seen\<close> is reported as seen by \<^verbatim>\<open>is_job_seen\<close> under its identifier.
\<close>

theorem recorded_job_is_seen:
  "q_insert = Sqlite_ok \<Longrightarrow> q_select = Sqlite_ok
   \<Longrightarrow> is_job_seen q_select (mark_job_as_seen q_insert utc job db) (job_id job)"
  by (simp add: is_job_seen_iff ledger_ids_mark_ok)

text \<open>The SDE-1 job, recorded in the empty ledger and looked up.\<close>

theorem recorded_job_is_seen_witness:
  "mark_job_as_seen Sqlite_ok (mk_datetime 2024 1 15 17 30 0 0) (to_job_data job_a) [] = [row_a]
   \<and> is_job_seen Sqlite_ok
        (mark_job_as_seen Sqlite_ok (mk_datetime 2024 1 15 17 30 0 0) (to_job_data job_a) [])
        (job_id (to_job_data job_a))"
proof -
  have "mark_job_as_seen Sqlite_ok (mk_datetime 2024 1 15 17 30 0 0) (to_job_data job_a) []
          = [row_a]"
    by (simp add: mark_job_as_seen_def timestamp_example to_job_data_a row_a_def)
  then show ?thesis
    using recorded_job_is_seen [OF refl refl, of "mk_datetime 2024 1 15 17 30 0 0"
        "to_job_data job_a" "[]"]
    by simp
qed

subsection \<open>Freshness (claim C8)\<close>

text \<open>The loop over the formats returns what the first accepting format parses.\<close>

lemma try_formats_first:
  "\<exists>f \<in> set fs. strptime s f \<noteq> None \<Longrightarrow>
   \<exists>f d. f \<in> set fs \<and> strptime s f = Some d
         \<and> (\<forall>g \<in> set (takeWhile (\<lambda>g. g \<noteq> f) fs). strptime s g = None)
         \<and> try_formats strptime s fs = Some d"
proof (induction fs)
  case Nil
  then show ?case by simp
next
  case (Cons a fs)
  show ?case
  proof (cases "strptime s a")
    case (Some d)
    then have "a \<in> set (a # fs) \<and> strptime s a = Some d
         \<and> (\<forall>g \<in> set (takeWhile (\<lambda>g. g \<noteq> a) (a # fs)). strptime s g = None)
         \<and> try_formats strptime s (a # fs) = Some d"
      by simp
    then show ?thesis by blast
  next
    case None
    with Cons.prems have "\<exists>f \<in> set fs. strptime s f \<noteq> None"
      by auto
    from Cons.IH [OF this] obtain f d where f: "f \<in> set fs" "strptime s f = Some d"
      "\<forall>g \<in> set (takeWhile (\<lambda>g. g \<noteq> f) fs). strptime s g = None"
      "try_formats strptime s fs = Some d"
      by blast
    from f(2) None have "a \<noteq> f"
      by auto
    with f None have "f \<in> set (a # fs) \<and> strptime s f = Some d
         \<and> (\<forall>g \<in> set (takeWhile (\<lambda>g. g \<noteq> f) (a # fs)). strptime s g = None)
         \<and> try_formats strptime s (a # fs) = Some d"
      by simp
    then show ?thesis by blast
  qed
qed

text \<open>
  Claim C8. A posted date that one of the four formats parses has a parsed value, the
  one of the first format in the list that accepts it; \<^verbatim>\<open>is_recent_job\<close> holds exactly if
  the wall clock minus that value is at most 24 hours (here in microseconds). So a
  record dated in the future, whose difference is negative, is fresh.
\<close>

theorem is_recent_job_iff_within_24_hours:
  "\<exists>fmt \<in> set date_formats. strptime s fmt \<noteq> None \<Longrightarrow>
   \<exists>fmt posted.
      fmt \<in> set date_formats \<and> strptime s fmt = Some posted
      \<and> (\<forall>g \<in> set (takeWhile (\<lambda>g. g \<noteq> fmt) date_formats). strptime s g = None)
      \<and> (is_recent_job strptime now s \<longleftrightarrow> now - posted \<le> 24 * 60 * 60 * 1000000)
      \<and> (now < posted \<longrightarrow> is_recent_job strptime now s)"
proof -
  assume "\<exists>fmt \<in> set date_formats. strptime s fmt \<noteq> None"
  from try_formats_first [of date_formats strptime s, OF this] obtain f d where f: "f \<in> set date_formats"
    "strptime s f = Some d"
    "\<forall>g \<in> set (takeWhile (\<lambda>g. g \<noteq> f) date_formats). strptime s g = None"
    "try_formats strptime s date_formats = Some d"
    by blast
  have "is_recent_job strptime now s \<longleftrightarrow> now - d \<le> 24 * 60 * 60 * 1000000"
    by (simp add: is_recent_job_def f(4) total_seconds_def field_simps)
  then show ?thesis
    using f by auto
qed

text \<open>
  The date string of the examples is parsed by the first format. At 09:30 that day the
  difference is nine and a half hours, and the job is fresh; on 10 January, five days
  before the posted date, the difference is negative and the job is fresh as well.
\<close>

theorem is_recent_job_iff_within_24_hours_witness:
  "(\<exists>fmt \<in> set date_formats. example_strptime ''January 15, 2024'' fmt \<noteq> None)
   \<and> mk_datetime 2024 1 15 9 30 0 0 - mk_datetime 2024 1 15 0 0 0 0 = 34200000000
   \<and> is_recent_job example_strptime (mk_datetime 2024 1 15 9 30 0 0) ''January 15, 2024''
   \<and> mk_datetime 2024 1 10 9 30 0 0 < mk_datetime 2024 1 15 0 0 0 0
   \<and> is_recent_job example_strptime (mk_datetime 2024 1 10 9 30 0 0) ''January 15, 2024''"
proof -
  have p: "\<exists>fmt \<in> set date_formats. example_strptime ''January 15, 2024'' fmt \<noteq> None"
    by (simp add: date_formats_def example_strptime_def)
  have d: "mk_datetime 2024 1 15 9 30 0 0 - mk_datetime 2024 1 15 0 0 0 0 = 34200000000"
    by (simp add: mk_2024_1_15)
  have e: "mk_datetime 2024 1 10 9 30 0 0 < mk_datetime 2024 1 15 0 0 0 0"
    by (simp add: calendar_defs)
  have only: "posted = mk_datetime 2024 1 15 0 0 0 0"
    if "example_strptime ''January 15, 2024'' fmt = Some posted" for fmt posted
    using that by (simp add: example_strptime_def split: if_splits)
  from is_recent_job_iff_within_24_hours [of example_strptime "''January 15, 2024''"
      "mk_datetime 2024 1 15 9 30 0 0", OF p]
  have "is_recent_job example_strptime (mk_datetime 2024 1 15 9 30 0 0) ''January 15, 2024''"
    using d by (auto dest!: only)
  moreover
  from is_recent_job_iff_within_24_hours [of example_strptime "''January 15, 2024''"
      "mk_datetime 2024 1 10 9 30 0 0", OF p]
  have "is_recent_job example_strptime (mk_datetime 2024 1 10 9 30 0 0) ''January 15, 2024''"
    using e by (auto dest!: only)
  ultimately show ?thesis
    using p d e by simp
qed

subsection \<open>The cycle (claims C3 and C9)\<close>

text \<open>The posts of the notification loop: one for every job, in order, whatever the
  outcome of the posts before.\<close>

lemma telegram_notify_loop:
  "telegram (notify_loop env k new_jobs w) =
     telegram w @ map (\<lambda>(n, job). (job, post_result env n = Post_ok)) (enumerate k new_jobs)"
proof (induction new_jobs arbitrary: k w)
  case Nil
  then show ?case by simp
next
  case (Cons job new_jobs)
  show ?case
    by (cases "post_result env k") (simp_all add: Cons.IH send_telegram_notification_def)
qed

text \<open>Recording a job leaves the rows of every other identifier as they are.\<close>

lemma mark_other_rows:
  "job_id job \<noteq> x \<Longrightarrow>
   filter (\<lambda>row. job_id row = x) (mark_job_as_seen q utc job db) = filter (\<lambda>row. job_id row = x) db"
proof (cases q)
  case Sqlite_ok
  assume "job_id job \<noteq> x"
  then have "filter (\<lambda>row. job_id row = x) (filter (\<lambda>row. job_id row \<noteq> job_id job) db)
               = filter (\<lambda>row. job_id row = x) db"
    by (induction db) auto
  with \<open>job_id job \<noteq> x\<close> Sqlite_ok show ?thesis
    by (simp add: mark_job_as_seen_def)
next
  case Sqlite_error
  then show ?thesis by (simp add: mark_job_as_seen_def)
qed

lemma rows_notify_loop:
  "\<forall>(n, job) \<in> set (enumerate k new_jobs). job_id job = x \<longrightarrow> post_result env n = Post_exception
   \<Longrightarrow> filter (\<lambda>row. job_id row = x) (seen_jobs (notify_loop env k new_jobs w))
       = filter (\<lambda>row. job_id row = x) (seen_jobs w)"
proof (induction new_jobs arbitrary: k w)
  case Nil
  then show ?case by simp
next
  case (Cons job new_jobs)
  from Cons.prems
  have rest: "\<forall>(n, job) \<in> set (enumerate (Suc k) new_jobs).
                job_id job = x \<longrightarrow> post_result env n = Post_exception"
    and first: "job_id job = x \<longrightarrow> post_result env k = Post_exception"
    by auto
  show ?case
  proof (cases "post_result env k")
    case Post_ok
    with first have "job_id job \<noteq> x"
      by auto
    with Post_ok show ?thesis
      by (simp add: send_telegram_notification_def Cons.IH [OF rest] mark_other_rows)
  next
    case Post_exception
    then show ?thesis
      by (simp add: send_telegram_notification_def Cons.IH [OF rest])
  qed
qed

lemma set_table_cleanup: "set (table (cleanup_old_jobs q now days_old db)) \<subseteq> set db"
  by (auto simp: cleanup_old_jobs_def Let_def split: sqlite.splits option.splits)

lemma telegram_run_scraping_cycle:
  "telegram (run_scraping_cycle strptime env w) =
     telegram w @ map (\<lambda>(n, job). (job, post_result env n = Post_ok))
       (enumerate 0 (filter_sde1_jobs strptime env (seen_jobs w) (fetch_jobs (get_result env))))"
proof (cases "fetch_jobs (get_result env) = []")
  case True
  then show ?thesis
    by (simp add: run_scraping_cycle_def filter_sde1_jobs_def)
next
  case False
  then show ?thesis
    by (simp add: run_scraping_cycle_def Let_def telegram_notify_loop)
qed

lemma rows_run_scraping_cycle:
  assumes "\<forall>(n, job) \<in> set (enumerate 0
             (filter_sde1_jobs strptime env (seen_jobs w) (fetch_jobs (get_result env)))).
             job_id job = x \<longrightarrow> post_result env n = Post_exception"
    and "row \<in> set (seen_jobs (run_scraping_cycle strptime env w))" and "job_id row = x"
  shows "row \<in> set (seen_jobs w)"
proof -
  let ?new = "filter_sde1_jobs strptime env (seen_jobs w) (fetch_jobs (get_result env))"
  let ?w = "notify_loop env 0 ?new w"
  have loop: "row \<in> set (seen_jobs ?w) \<Longrightarrow> row \<in> set (seen_jobs w)"
  proof -
    assume "row \<in> set (seen_jobs ?w)"
    with assms(3) have "row \<in> set (filter (\<lambda>row. job_id row = x) (seen_jobs ?w))"
      by simp
    then have "row \<in> set (filter (\<lambda>row. job_id row = x) (seen_jobs w))"
      by (simp only: rows_notify_loop [OF assms(1)])
    then show ?thesis by simp
  qed
  from assms(2) have "row \<in> set (seen_jobs w) \<or> row \<in> set (seen_jobs ?w)"
    using set_table_cleanup [of "delete_result env" "clock_cleanup env" 30 "seen_jobs ?w"]
    by (auto simp: run_scraping_cycle_def Let_def split: if_splits)
  with loop show ?thesis by blast
qed
lemma role_match_a2: "role_match job_a2"
  by (simp add: role_match_def sde1_keywords_def job_a2_def dict_get_def lower_def lower_char_def
      flip: py_in_sublist)

lemma fresh_a2: "fresh example_strptime (mk_datetime 2024 1 15 9 30 0 0) job_a2"
  using recent_a by (simp add: fresh_def job_a2_def dict_get_def)

lemma raw_id_a2: "raw_id job_a2 = ''2532117''"
  by (simp add: raw_id_def job_a2_def dict_get_def)

lemma to_job_data_a2:
  "to_job_data job_a2 =
     \<lparr>job_id = ''2532117'', title = ''SDE I, Alexa Shopping'',
      location = ''Seattle, WA, USA'', posted_date = ''January 15, 2024'',
      url = ''https://www.amazon.jobs/en/jobs/2532117/apply''\<rparr>"
  by (simp add: to_job_data_def raw_id_def job_a2_def dict_get_def)

lemma filter_duplicates:
  assumes "clock env = (\<lambda>i. mk_datetime 2024 1 15 9 30 0 0)"
  shows "filter_sde1_jobs example_strptime env [] [job_a, job_a2]
           = [to_job_data job_a, to_job_data job_a2]"
proof -
  have "notifiable example_strptime env [] (i, job_a)"
    and "notifiable example_strptime env [] (i, job_a2)" for i
    using role_match_a fresh_a role_match_a2 fresh_a2
    by (simp_all add: notifiable_def assms ledger_ids_def)
  then show ?thesis
    by (simp add: filter_sde1_jobs_eq kept_def)
qed

text \<open>
  Claim C3, as the code has it. The cycle posts every job the filter returned, in order,
  whatever the outcome of the posts before it. If every post of the cycle for an
  identifier fails, the cycle records no row for that identifier: each row the ledger
  then holds for it was there before. So a record with that identifier that a pass
  would keep against the ledger before the cycle, it keeps against the ledger after it.
\<close>

theorem failed_delivery_is_not_recorded:
  assumes new: "new_jobs = filter_sde1_jobs strptime env (seen_jobs w) (fetch_jobs (get_result env))"
    and failed: "\<forall>k<length new_jobs. job_id (new_jobs ! k) = x \<longrightarrow> post_result env k = Post_exception"
  shows "telegram (run_scraping_cycle strptime env w)
           = telegram w @ map (\<lambda>(k, job). (job, post_result env k = Post_ok)) (enumerate 0 new_jobs)
         \<and> (\<forall>row \<in> set (seen_jobs (run_scraping_cycle strptime env w)).
               job_id row = x \<longrightarrow> row \<in> set (seen_jobs w))
         \<and> (\<forall>env' jobs' i.
               raw_id (jobs' ! i) = x \<and> (i, jobs' ! i) \<in> set (kept strptime env' (seen_jobs w) jobs')
               \<longrightarrow> (i, jobs' ! i)
                     \<in> set (kept strptime env' (seen_jobs (run_scraping_cycle strptime env w)) jobs'))"
proof -
  let ?w = "run_scraping_cycle strptime env w"
  from failed have f: "\<forall>(n, job) \<in> set (enumerate 0 new_jobs).
      job_id job = x \<longrightarrow> post_result env n = Post_exception"
    by (auto simp: in_set_enumerate_eq)
  have rows: "row \<in> set (seen_jobs w)" if "row \<in> set (seen_jobs ?w)" "job_id row = x" for row
    using rows_run_scraping_cycle [OF f [unfolded new] that] .
  then have ids: "x \<in> ledger_ids (seen_jobs ?w) \<Longrightarrow> x \<in> ledger_ids (seen_jobs w)"
    by (auto simp: ledger_ids_def)
  have "(i, jobs' ! i) \<in> set (kept strptime env' (seen_jobs ?w) jobs')"
    if "raw_id (jobs' ! i) = x" "(i, jobs' ! i) \<in> set (kept strptime env' (seen_jobs w) jobs')"
    for env' jobs' i
    using that ids by (auto simp: in_kept_iff notifiable_def)
  with rows show ?thesis
    by (simp add: telegram_run_scraping_cycle new)
qed

text \<open>
  The cycle of the examples with a failing post: the one job is posted, nothing is
  recorded, and the filter returns the job again.
\<close>

theorem failed_delivery_is_not_recorded_witness:
  "filter_sde1_jobs example_strptime (example_env\<lparr>post_result := (\<lambda>k. Post_exception)\<rparr>) []
       (fetch_jobs (get_result (example_env\<lparr>post_result := (\<lambda>k. Post_exception)\<rparr>)))
     = [to_job_data job_a]
   \<and> post_result (example_env\<lparr>post_result := (\<lambda>k. Post_exception)\<rparr>) 0 = Post_exception
   \<and> telegram (run_scraping_cycle example_strptime (example_env\<lparr>post_result := (\<lambda>k. Post_exception)\<rparr>)
        \<lparr>seen_jobs = [], telegram = []\<rparr>) = [(to_job_data job_a, False)]
   \<and> (0, job_a) \<in> set (kept example_strptime (example_env\<lparr>post_result := (\<lambda>k. Post_exception)\<rparr>)
        (seen_jobs (run_scraping_cycle example_strptime
           (example_env\<lparr>post_result := (\<lambda>k. Post_exception)\<rparr>) \<lparr>seen_jobs = [], telegram = []\<rparr>))
        [job_a])"
proof -
  let ?env = "example_env\<lparr>post_result := (\<lambda>k. Post_exception)\<rparr>"
  let ?w = "\<lparr>seen_jobs = [], telegram = []\<rparr>"
  have n: "notifiable example_strptime ?env [] (0, job_a)"
    using role_match_a fresh_a by (simp add: notifiable_def example_env_def ledger_ids_def)
  have new: "[to_job_data job_a]
               = filter_sde1_jobs example_strptime ?env (seen_jobs ?w) (fetch_jobs (get_result ?env))"
    using n by (simp add: filter_sde1_jobs_eq kept_def example_env_def)
  have failed: "\<forall>k<length [to_job_data job_a].
      job_id ([to_job_data job_a] ! k) = ''2532117'' \<longrightarrow> post_result ?env k = Post_exception"
    by simp
  have k: "(0, [job_a] ! 0) \<in> set (kept example_strptime ?env (seen_jobs ?w) [job_a])"
    using n by (simp add: kept_def)
  note inst = failed_delivery_is_not_recorded [OF new failed]
  from inst have "telegram (run_scraping_cycle example_strptime ?env ?w) = [(to_job_data job_a, False)]"
    by simp
  moreover from inst k have
    "(0, [job_a] ! 0) \<in> set (kept example_strptime ?env
        (seen_jobs (run_scraping_cycle example_strptime ?env ?w)) [job_a])"
    using raw_id_a by (metis nth_Cons_0)
  ultimately show ?thesis
    using new by simp
qed

text \<open>
  Claim C3 as stated fails for two jobs of one batch that share their identifier. The
  post for the first fails, the post for the second goes through and the second is
  recorded: after the cycle the ledger holds the identifier of the job whose delivery
  failed, and a pass over the same raw list returns nothing.
\<close>

theorem failed_delivery_recorded_by_duplicate_counterexample:
  "run_scraping_cycle example_strptime duplicate_env \<lparr>seen_jobs = [], telegram = []\<rparr>
     = \<lparr>seen_jobs = [row_a2],
        telegram = [(to_job_data job_a, False), (to_job_data job_a2, True)]\<rparr>
   \<and> job_id (to_job_data job_a) \<in> ledger_ids [row_a2]
   \<and> filter_sde1_jobs example_strptime duplicate_env [row_a2] [job_a, job_a2] = []"
proof -
  have c: "clock duplicate_env = (\<lambda>i. mk_datetime 2024 1 15 9 30 0 0)"
    by (simp add: duplicate_env_def example_env_def)
  have f: "fetch_jobs (get_result duplicate_env) = [job_a, job_a2]"
    by (simp add: duplicate_env_def)
  have h: "hour (clock_hour duplicate_env) = 9"
    by (simp add: duplicate_env_def example_env_def hour_def mk_2024_1_15)
  have n: "notify_loop duplicate_env 0 [to_job_data job_a, to_job_data job_a2]
             \<lparr>seen_jobs = [], telegram = []\<rparr>
           = \<lparr>seen_jobs = [row_a2],
              telegram = [(to_job_data job_a, False), (to_job_data job_a2, True)]\<rparr>"
    by (simp add: send_telegram_notification_def mark_job_as_seen_def duplicate_env_def
        example_env_def timestamp_example to_job_data_a to_job_data_a2 row_a2_def)
  have cycle: "run_scraping_cycle example_strptime duplicate_env \<lparr>seen_jobs = [], telegram = []\<rparr>
     = \<lparr>seen_jobs = [row_a2],
        telegram = [(to_job_data job_a, False), (to_job_data job_a2, True)]\<rparr>"
    by (simp add: run_scraping_cycle_def f filter_duplicates [OF c] n h del: notify_loop.simps)
  have ids: "ledger_ids [row_a2] = {''2532117''}"
    by (simp add: ledger_ids_def row_a2_def)
  have s: "select_result duplicate_env = (\<lambda>i. Sqlite_ok)"
    by (simp add: duplicate_env_def example_env_def)
  have "filter_sde1_jobs example_strptime duplicate_env [row_a2] [job_a, job_a2] = []"
    by (simp add: filter_sde1_jobs_eq kept_def notifiable_def ids raw_id_a raw_id_a2 s)
  with cycle ids show ?thesis
    by (simp add: job_id_to_job_data raw_id_a)
qed
lemma length_filter_enumerate:
  "length (filter (\<lambda>p. Q (snd p)) (enumerate k ys)) = length (filter Q ys)"
  by (induction ys arbitrary: k) simp_all

lemma two_members_of_filter:
  assumes "distinct xs" "a \<in> set xs" "b \<in> set xs" "a \<noteq> b" "P a" "P b"
  shows "2 \<le> length (filter P xs)"
proof -
  from assms have "{a, b} \<subseteq> set (filter P xs)"
    by simp
  then have "card {a, b} \<le> card (set (filter P xs))"
    by (intro card_mono) simp_all
  also have "\<dots> \<le> length (filter P xs)"
    by (rule card_length)
  finally show ?thesis
    using \<open>a \<noteq> b\<close> by simp
qed

lemma distinct_kept: "distinct (kept strptime env db jobs)"
  by (simp add: kept_def distinct_enumerate)

text \<open>
  Claim C9. The filter looks identifiers up in the ledger as it is when the filter runs,
  and the ledger is written only in the notification loop after it. So of two records of
  one raw list that share an identifier the ledger does not hold, both with a role
  keyword in the title and both fresh, the filter keeps both; and a cycle that fetched
  the list calls \<^verbatim>\<open>send_telegram_notification\<close> at least twice with a job of that
  identifier.
\<close>

theorem duplicate_identifier_is_notified_twice:
  assumes "i < k" "k < length jobs"
    and "raw_id (jobs ! i) = x" "raw_id (jobs ! k) = x"
    and "role_match (jobs ! i)" "role_match (jobs ! k)"
    and "fresh strptime (clock env i) (jobs ! i)" "fresh strptime (clock env k) (jobs ! k)"
    and "x \<notin> ledger_ids db"
  shows "(i, jobs ! i) \<in> set (kept strptime env db jobs)
         \<and> (k, jobs ! k) \<in> set (kept strptime env db jobs)
         \<and> (get_result env = Payload (Some jobs) \<and> seen_jobs w = db \<longrightarrow>
              (\<exists>calls. telegram (run_scraping_cycle strptime env w) = telegram w @ calls
                       \<and> 2 \<le> length (filter (\<lambda>(job, ok). job_id job = x) calls)))"
proof -
  let ?kept = "kept strptime env db jobs"
  from assms have ki: "(i, jobs ! i) \<in> set ?kept" and kk: "(k, jobs ! k) \<in> set ?kept"
    by (simp_all add: in_kept_iff notifiable_def)
  have "2 \<le> length (filter (\<lambda>p. raw_id (snd p) = x) ?kept)"
    using distinct_kept ki kk assms(1,3,4) by (intro two_members_of_filter [where a = "(i, jobs ! i)"
          and b = "(k, jobs ! k)"]) simp_all
  then have new: "2 \<le> length (filter (\<lambda>job. job_id job = x) (filter_sde1_jobs strptime env db jobs))"
    by (simp add: filter_sde1_jobs_eq filter_map comp_def job_id_to_job_data)
  have "\<exists>calls. telegram (run_scraping_cycle strptime env w) = telegram w @ calls
                \<and> 2 \<le> length (filter (\<lambda>(job, ok). job_id job = x) calls)"
    if "get_result env = Payload (Some jobs)" "seen_jobs w = db"
  proof -
    let ?calls = "map (\<lambda>(n, job). (job, post_result env n = Post_ok))
                    (enumerate 0 (filter_sde1_jobs strptime env db jobs))"
    have "telegram (run_scraping_cycle strptime env w) = telegram w @ ?calls"
      using that by (simp add: telegram_run_scraping_cycle)
    moreover have "length (filter (\<lambda>(job, ok). job_id job = x) ?calls)
                     = length (filter (\<lambda>job. job_id job = x) (filter_sde1_jobs strptime env db jobs))"
      by (simp add: filter_map comp_def case_prod_unfold
          length_filter_enumerate [of "\<lambda>job. job_id job = x"])
    ultimately show ?thesis
      using new by auto
  qed
  with ki kk show ?thesis
    by blast
qed

text \<open>
  The two records of the examples that share an identifier, fetched in one cycle in which
  nothing fails: the filter returns both jobs and both are posted.
\<close>

theorem duplicate_identifier_is_notified_twice_witness:
  "(0 :: nat) < 1 \<and> 1 < length [job_a, job_a2]
   \<and> raw_id ([job_a, job_a2] ! 0) = ''2532117'' \<and> raw_id ([job_a, job_a2] ! 1) = ''2532117''
   \<and> ''2532117'' \<notin> ledger_ids []
   \<and> (0, job_a) \<in> set (kept example_strptime
          (example_env\<lparr>get_result := Payload (Some [job_a, job_a2])\<rparr>) [] [job_a, job_a2])
   \<and> (1, job_a2) \<in> set (kept example_strptime
          (example_env\<lparr>get_result := Payload (Some [job_a, job_a2])\<rparr>) [] [job_a, job_a2])
   \<and> (\<exists>calls. telegram (run_scraping_cycle example_strptime
                  (example_env\<lparr>get_result := Payload (Some [job_a, job_a2])\<rparr>)
                  \<lparr>seen_jobs = [], telegram = []\<rparr>) = calls
         \<and> 2 \<le> length (filter (\<lambda>(job, ok). job_id job = ''2532117'') calls))"
proof -
  let ?env = "example_env\<lparr>get_result := Payload (Some [job_a, job_a2])\<rparr>"
  have h: "(0 :: nat) < 1" "1 < length [job_a, job_a2]"
    "raw_id ([job_a, job_a2] ! 0) = ''2532117''" "raw_id ([job_a, job_a2] ! 1) = ''2532117''"
    "role_match ([job_a, job_a2] ! 0)" "role_match ([job_a, job_a2] ! 1)"
    "fresh example_strptime (clock ?env 0) ([job_a, job_a2] ! 0)"
    "fresh example_strptime (clock ?env 1) ([job_a, job_a2] ! 1)"
    "''2532117'' \<notin> ledger_ids []"
    using role_match_a role_match_a2 fresh_a fresh_a2
    by (simp_all add: raw_id_a raw_id_a2 example_env_def ledger_ids_def)
  from duplicate_identifier_is_notified_twice [OF h, of "\<lparr>seen_jobs = [], telegram = []\<rparr>"] h(1-4,9)
  show ?thesis
    by simp
qed

subsection \<open>Records without identifier (claim C10)\<close>

lemma role_match_noid: "role_match job_noid"
  by (simp add: role_match_def sde1_keywords_def job_noid_def dict_get_def lower_def lower_char_def
      flip: py_in_sublist)

lemma fresh_noid: "fresh example_strptime (mk_datetime 2024 1 15 9 30 0 0) job_noid"
  using recent_a by (simp add: fresh_def job_noid_def dict_get_def)

lemma to_job_data_noid:
  "to_job_data job_noid =
     \<lparr>job_id = '''', title = ''SDE 1, Kindle'', location = ''Chennai, IND'',
      posted_date = ''January 15, 2024'', url = ''https://www.amazon.jobs/en/jobs//apply''\<rparr>"
  by (simp add: to_job_data_def raw_id_def job_noid_def dict_get_def)

text \<open>A pass returns no job under an identifier the ledger holds, if the lookups for the
  records of that identifier run.\<close>

lemma filter_sde1_jobs_not_ledger_id:
  assumes "x \<in> ledger_ids db"
    and "\<forall>n<length jobs. raw_id (jobs ! n) = x \<longrightarrow> select_result env n = Sqlite_ok"
    and "j \<in> set (filter_sde1_jobs strptime env db jobs)"
  shows "job_id j \<noteq> x"
proof
  assume x: "job_id j = x"
  from assms(3) obtain n r where nr: "(n, r) \<in> set (kept strptime env db jobs)"
    and jr: "j = to_job_data r"
    by (auto simp: filter_sde1_jobs_eq)
  from nr have n: "n < length jobs" "jobs ! n = r" "notifiable strptime env db (n, r)"
    by (simp_all add: in_kept_iff)
  from x jr have "raw_id r = x"
    by (simp add: job_id_to_job_data)
  with n(1,2) assms(2) have "select_result env n = Sqlite_ok"
    by blast
  with n(3) \<open>raw_id r = x\<close> assms(1) show False
    by (simp add: notifiable_def)
qed

text \<open>
  Claim C10, as the code has it. A raw record without the field \<^verbatim>\<open>id_icims\<close> has the
  empty string for its identifier, and its job the URL with nothing between the two
  slashes. If its title has a role keyword, its date is fresh and the ledger does not
  hold the empty identifier, \<^verbatim>\<open>filter_sde1_jobs\<close> returns its job. Recording its job puts
  the empty identifier into the ledger. From then on, and against every ledger that
  holds the empty identifier, \<^verbatim>\<open>filter_sde1_jobs\<close> returns no job with the empty
  identifier from any raw list, provided the lookups for the records with the empty
  identifier run; this is so after \<^verbatim>\<open>mark_job_as_seen\<close> recorded the job and after a
  notification loop posted and recorded a job with the empty identifier.
\<close>

theorem record_without_identifier:
  assumes "i < length jobs" and "(jobs ! i) ''id_icims'' = None"
  shows "job_id (to_job_data (jobs ! i)) = ''''
         \<and> url (to_job_data (jobs ! i)) = ''https://www.amazon.jobs/en/jobs//apply''
         \<and> (role_match (jobs ! i) \<and> fresh strptime (clock env i) (jobs ! i) \<and> '''' \<notin> ledger_ids db
              \<longrightarrow> (i, jobs ! i) \<in> set (kept strptime env db jobs)
                  \<and> to_job_data (jobs ! i) \<in> set (filter_sde1_jobs strptime env db jobs))
         \<and> '''' \<in> ledger_ids (mark_job_as_seen Sqlite_ok utc (to_job_data (jobs ! i)) db)
         \<and> ('''' \<in> ledger_ids db \<and> select_result env i = Sqlite_ok
              \<longrightarrow> (i, jobs ! i) \<notin> set (kept strptime env db jobs))
         \<and> (\<forall>env' jobs' db'.
               '''' \<in> ledger_ids db'
               \<and> (\<forall>n<length jobs'. raw_id (jobs' ! n) = '''' \<longrightarrow> select_result env' n = Sqlite_ok)
               \<longrightarrow> (\<forall>j \<in> set (filter_sde1_jobs strptime env' db' jobs'). job_id j \<noteq> ''''))
         \<and> (\<forall>env' jobs'.
               (\<forall>n<length jobs'. raw_id (jobs' ! n) = '''' \<longrightarrow> select_result env' n = Sqlite_ok)
               \<longrightarrow> (\<forall>j \<in> set (filter_sde1_jobs strptime env'
                                  (mark_job_as_seen Sqlite_ok utc (to_job_data (jobs ! i)) db) jobs').
                       job_id j \<noteq> ''''))
         \<and> (\<forall>env' jobs' env'' new_jobs w k.
               k < length new_jobs \<and> job_id (new_jobs ! k) = ''''
               \<and> post_result env'' k = Post_ok \<and> insert_result env'' k = Sqlite_ok
               \<and> (\<forall>n<length jobs'. raw_id (jobs' ! n) = '''' \<longrightarrow> select_result env' n = Sqlite_ok)
               \<longrightarrow> (\<forall>j \<in> set (filter_sde1_jobs strptime env'
                                  (seen_jobs (notify_loop env'' 0 new_jobs w)) jobs').
                       job_id j \<noteq> ''''))"
proof -
  from assms(2) have r: "raw_id (jobs ! i) = ''''"
    by (simp add: raw_id_def dict_get_def)
  have id: "job_id (to_job_data (jobs ! i)) = ''''"
    using r by (simp add: job_id_to_job_data)
  have link: "url (to_job_data (jobs ! i)) = ''https://www.amazon.jobs/en/jobs//apply''"
    using r by (simp add: to_job_data_def)
  have included: "(i, jobs ! i) \<in> set (kept strptime env db jobs)
        \<and> to_job_data (jobs ! i) \<in> set (filter_sde1_jobs strptime env db jobs)"
    if "role_match (jobs ! i)" "fresh strptime (clock env i) (jobs ! i)" "'''' \<notin> ledger_ids db"
  proof -
    from that assms(1) r have "(i, jobs ! i) \<in> set (kept strptime env db jobs)"
      by (simp add: in_kept_iff notifiable_def)
    then show ?thesis
      by (force simp: filter_sde1_jobs_eq)
  qed
  have recorded: "'''' \<in> ledger_ids (mark_job_as_seen Sqlite_ok utc (to_job_data (jobs ! i)) db)"
    using id by (simp add: ledger_ids_mark_ok)
  have left_out: "(i, jobs ! i) \<notin> set (kept strptime env db jobs)"
    if "'''' \<in> ledger_ids db" "select_result env i = Sqlite_ok"
    using that r by (simp add: in_kept_iff notifiable_def)
  have later: "job_id j \<noteq> ''''"
    if "'''' \<in> ledger_ids db'"
      "\<forall>n<length jobs'. raw_id (jobs' ! n) = '''' \<longrightarrow> select_result env' n = Sqlite_ok"
      "j \<in> set (filter_sde1_jobs strptime env' db' jobs')" for env' jobs' db' j
    using that by (rule filter_sde1_jobs_not_ledger_id)
  have after_mark: "job_id j \<noteq> ''''"
    if "\<forall>n<length jobs'. raw_id (jobs' ! n) = '''' \<longrightarrow> select_result env' n = Sqlite_ok"
      "j \<in> set (filter_sde1_jobs strptime env'
                  (mark_job_as_seen Sqlite_ok utc (to_job_data (jobs ! i)) db) jobs')"
    for env' jobs' j
    using recorded that by (rule later)
  have after_loop: "job_id j \<noteq> ''''"
    if "k < length new_jobs" "job_id (new_jobs ! k) = ''''"
      "post_result env'' k = Post_ok" "insert_result env'' k = Sqlite_ok"
      "\<forall>n<length jobs'. raw_id (jobs' ! n) = '''' \<longrightarrow> select_result env' n = Sqlite_ok"
      "j \<in> set (filter_sde1_jobs strptime env' (seen_jobs (notify_loop env'' 0 new_jobs w)) jobs')"
    for env' jobs' env'' new_jobs w k j
  proof -
    from recorded_in_notify_loop [of k new_jobs env'' 0 w] that(1-4)
    have "'''' \<in> ledger_ids (seen_jobs (notify_loop env'' 0 new_jobs w))"
      by simp
    then show ?thesis
      using that(5,6) by (rule later)
  qed
  from id link included recorded left_out later after_mark after_loop show ?thesis
    by blast
qed

text \<open>
  The record without identifier is returned against the empty ledger. Once its job is
  recorded, the ledger is the one row under the empty identifier, and
  \<^verbatim>\<open>filter_sde1_jobs\<close> returns nothing for the same raw list: against that ledger, after
  \<^verbatim>\<open>mark_job_as_seen\<close>, and after the notification loop that posted the job.
\<close>

theorem record_without_identifier_witness:
  "(0 :: nat) < length [job_noid] \<and> ([job_noid] ! 0) ''id_icims'' = None
   \<and> role_match ([job_noid] ! 0) \<and> fresh example_strptime (clock example_env 0) ([job_noid] ! 0)
   \<and> '''' \<notin> ledger_ids []
   \<and> filter_sde1_jobs example_strptime example_env [] [job_noid] = [to_job_data job_noid]
   \<and> mark_job_as_seen Sqlite_ok (mk_datetime 2024 1 15 17 30 0 0) (to_job_data ([job_noid] ! 0)) []
       = [row_noid]
   \<and> '''' \<in> ledger_ids [row_noid] \<and> select_result example_env 0 = Sqlite_ok
   \<and> (0, [job_noid] ! 0) \<notin> set (kept example_strptime example_env [row_noid] [job_noid])
   \<and> filter_sde1_jobs example_strptime example_env [row_noid] [job_noid] = []
   \<and> filter_sde1_jobs example_strptime example_env
        (mark_job_as_seen Sqlite_ok (mk_datetime 2024 1 15 17 30 0 0) (to_job_data ([job_noid] ! 0)) [])
        [job_noid] = []
   \<and> post_result example_env 0 = Post_ok \<and> insert_result example_env 0 = Sqlite_ok
   \<and> filter_sde1_jobs example_strptime example_env
        (seen_jobs (notify_loop example_env 0 [to_job_data job_noid]
                      \<lparr>seen_jobs = [], telegram = []\<rparr>))
        [job_noid] = []"
proof -
  have h: "(0 :: nat) < length [job_noid]" "([job_noid] ! 0) ''id_icims'' = None"
    by (simp_all add: job_noid_def)
  have e: "role_match ([job_noid] ! 0)" "fresh example_strptime (clock example_env 0) ([job_noid] ! 0)"
    "'''' \<notin> ledger_ids []"
    using role_match_noid fresh_noid by (simp_all add: example_env_def ledger_ids_def)
  have s: "'''' \<in> ledger_ids [row_noid]" "select_result example_env 0 = Sqlite_ok"
    by (simp_all add: ledger_ids_def row_noid_def example_env_def)
  have p: "post_result example_env 0 = Post_ok" "insert_result example_env 0 = Sqlite_ok"
    by (simp_all add: example_env_def)
  have ok: "\<forall>n<length [job_noid]. raw_id ([job_noid] ! n) = '''' \<longrightarrow> select_result example_env n = Sqlite_ok"
    by (simp add: example_env_def)
  have m: "mark_job_as_seen Sqlite_ok (mk_datetime 2024 1 15 17 30 0 0) (to_job_data ([job_noid] ! 0)) []
             = [row_noid]"
    by (simp add: mark_job_as_seen_def timestamp_example to_job_data_noid row_noid_def)
  have empty: "filter_sde1_jobs example_strptime example_env db [job_noid] = []"
    if "\<forall>j \<in> set (filter_sde1_jobs example_strptime example_env db [job_noid]). job_id j \<noteq> ''''"
    for db
    using that by (auto simp: filter_sde1_jobs_eq kept_def to_job_data_noid)
  note inst = record_without_identifier [OF h, of _ example_env _ "mk_datetime 2024 1 15 17 30 0 0"]
  from inst [of example_strptime "[]"] e
  have "to_job_data ([job_noid] ! 0) \<in> set (filter_sde1_jobs example_strptime example_env [] [job_noid])"
    by blast
  then have f: "filter_sde1_jobs example_strptime example_env [] [job_noid] = [to_job_data job_noid]"
    by (auto simp: filter_sde1_jobs_eq kept_def split: if_splits)
  from inst [of example_strptime "[row_noid]"] s
  have k: "(0, [job_noid] ! 0) \<notin> set (kept example_strptime example_env [row_noid] [job_noid])"
    by blast
  have l: "filter_sde1_jobs example_strptime example_env [row_noid] [job_noid] = []"
  proof (rule empty)
    from inst [of example_strptime "[]"] s(1) ok
    show "\<forall>j \<in> set (filter_sde1_jobs example_strptime example_env [row_noid] [job_noid]).
            job_id j \<noteq> ''''"
      by blast
  qed
  have a: "filter_sde1_jobs example_strptime example_env
        (mark_job_as_seen Sqlite_ok (mk_datetime 2024 1 15 17 30 0 0) (to_job_data ([job_noid] ! 0)) [])
        [job_noid] = []"
  proof (rule empty)
    from inst [of example_strptime "[]"] ok
    show "\<forall>j \<in> set (filter_sde1_jobs example_strptime example_env
        (mark_job_as_seen Sqlite_ok (mk_datetime 2024 1 15 17 30 0 0) (to_job_data ([job_noid] ! 0)) [])
        [job_noid]). job_id j \<noteq> ''''"
      by blast
  qed
  have n: "filter_sde1_jobs example_strptime example_env
        (seen_jobs (notify_loop example_env 0 [to_job_data job_noid]
                      \<lparr>seen_jobs = [], telegram = []\<rparr>))
        [job_noid] = []"
  proof (rule empty)
    have q: "(0 :: nat) < length [to_job_data job_noid]"
      "job_id ([to_job_data job_noid] ! 0) = ''''"
      by (simp_all add: to_job_data_noid)
    from inst [of example_strptime "[]"] q p ok
    show "\<forall>j \<in> set (filter_sde1_jobs example_strptime example_env
        (seen_jobs (notify_loop example_env 0 [to_job_data job_noid]
                      \<lparr>seen_jobs = [], telegram = []\<rparr>))
        [job_noid]). job_id j \<noteq> ''''"
      by blast
  qed
  from h e s p m f k l a n show ?thesis
    by blast
qed

text \<open>
  Claim C10 as stated fails where the lookup fails: the ledger holds the row under the
  empty identifier, the \<^verbatim>\<open>SELECT\<close> raises, and the record without identifier is
  returned again.
\<close>

theorem record_without_identifier_counterexample:
  "job_noid ''id_icims'' = None
   \<and> '''' \<in> ledger_ids [row_noid]
   \<and> filter_sde1_jobs example_strptime failing_lookup_env
        [row_noid] [job_noid] = [to_job_data job_noid]"
proof -
  have "notifiable example_strptime failing_lookup_env [row_noid] (0, job_noid)"
    using role_match_noid fresh_noid
    by (simp add: notifiable_def failing_lookup_env_def example_env_def)
  then show ?thesis
    by (simp add: filter_sde1_jobs_eq kept_def job_noid_def ledger_ids_def row_noid_def)
qed

subsection \<open>How a ledger entry changes (claim C7)\<close>

lemma mark_job_as_seen_ok:
  "mark_job_as_seen Sqlite_ok utc job db
     = filter (\<lambda>row. job_id row \<noteq> job_id job) db @ [inserted_row utc job]"
  by (simp add: mark_job_as_seen_def inserted_row_def)

lemma mark_job_as_seen_error: "mark_job_as_seen Sqlite_error utc job db = db"
  by (simp add: mark_job_as_seen_def)

lemma job_id_inserted_row: "job_id (inserted_row utc job) = job_id job"
  by (simp add: inserted_row_def)

text \<open>Every row the notification loop leaves in the table was there before, or was
  inserted for a job of the batch whose post went through.\<close>

lemma row_after_notify_loop:
  "row \<in> set (seen_jobs (notify_loop env k new_jobs w)) \<Longrightarrow>
   row \<in> set (seen_jobs w)
   \<or> (\<exists>(n, job) \<in> set (enumerate k new_jobs).
         post_result env n = Post_ok \<and> row = inserted_row (utc_clock env n) job)"
proof (induction new_jobs arbitrary: k w)
  case Nil
  then show ?case by simp
next
  case (Cons job new_jobs)
  show ?case
  proof (cases "post_result env k")
    case Post_exception
    with Cons.prems have "row \<in> set (seen_jobs (notify_loop env (Suc k) new_jobs
        \<lparr>seen_jobs = seen_jobs w, telegram = telegram w @ [(job, False)]\<rparr>))"
      by (simp add: send_telegram_notification_def)
    from Cons.IH [OF this] show ?thesis
      by auto
  next
    case Post_ok
    let ?w = "\<lparr>seen_jobs = mark_job_as_seen (insert_result env k) (utc_clock env k) job (seen_jobs w),
               telegram = telegram w @ [(job, True)]\<rparr>"
    from Cons.prems Post_ok have "row \<in> set (seen_jobs (notify_loop env (Suc k) new_jobs ?w))"
      by (simp add: send_telegram_notification_def)
    from Cons.IH [OF this] consider
      (marked) "row \<in> set (mark_job_as_seen (insert_result env k) (utc_clock env k) job (seen_jobs w))"
      | (later) "\<exists>(n, job) \<in> set (enumerate (Suc k) new_jobs).
          post_result env n = Post_ok \<and> row = inserted_row (utc_clock env n) job"
      by auto
    then show ?thesis
    proof cases
      case marked
      then have "row \<in> set (seen_jobs w) \<or> row = inserted_row (utc_clock env k) job"
        by (cases "insert_result env k") (auto simp: mark_job_as_seen_ok mark_job_as_seen_error)
      with Post_ok show ?thesis
        by auto
    next
      case later
      then show ?thesis
        by auto
    qed
  qed
qed

text \<open>
  Claim C7, as the code has it. A ledger entry changes in two ways only. Recording a job
  leaves the rows of every other identifier as they are and changes nothing at all when
  sqlite fails; when it runs, the row of the job's own identifier is replaced by one row
  with the job's title, location and posted date and the time of this recording. The
  cleanup only deletes: what it leaves is a selection of the rows, each as it was, in
  their order. Lookups and the filter do not write: they return no table. So every
  row in the ledger after a cycle was there before the cycle, or was inserted in the
  cycle for a job whose post went through.
\<close>

theorem ledger_entry_change_paths:
  "(job_id job \<noteq> x \<longrightarrow>
      filter (\<lambda>row. job_id row = x) (mark_job_as_seen q utc job db)
        = filter (\<lambda>row. job_id row = x) db)
   \<and> mark_job_as_seen Sqlite_error utc job db = db
   \<and> filter (\<lambda>row. job_id row = job_id job) (mark_job_as_seen Sqlite_ok utc job db)
        = [inserted_row utc job]
   \<and> (\<exists>P. table (cleanup_old_jobs q' now days_old db) = filter P db)
   \<and> (\<forall>row \<in> set (seen_jobs (run_scraping_cycle strptime env w)).
         row \<in> set (seen_jobs w)
         \<or> (\<exists>k job. (job, True) \<in> set (telegram (run_scraping_cycle strptime env w))
                    \<and> post_result env k = Post_ok \<and> row = inserted_row (utc_clock env k) job))"
proof (intro conjI impI ballI)
  assume "job_id job \<noteq> x"
  then show "filter (\<lambda>row. job_id row = x) (mark_job_as_seen q utc job db)
               = filter (\<lambda>row. job_id row = x) db"
    by (rule mark_other_rows)
next
  show "mark_job_as_seen Sqlite_error utc job db = db"
    by (simp add: mark_job_as_seen_def)
next
  show "filter (\<lambda>row. job_id row = job_id job) (mark_job_as_seen Sqlite_ok utc job db)
          = [inserted_row utc job]"
    by (simp add: mark_job_as_seen_ok job_id_inserted_row)
next
  show "\<exists>P. table (cleanup_old_jobs q' now days_old db) = filter P db"
  proof (cases "q' = Sqlite_ok \<and> minus_days now days_old \<noteq> None")
    case True
    then show ?thesis
      by (auto simp: cleanup_old_jobs_def Let_def)
  next
    case False
    then have "table (cleanup_old_jobs q' now days_old db) = filter (\<lambda>row. True) db"
      by (cases q') (auto simp: cleanup_old_jobs_def)
    then show ?thesis
      by blast
  qed
next
  fix row
  let ?new = "filter_sde1_jobs strptime env (seen_jobs w) (fetch_jobs (get_result env))"
  let ?w = "notify_loop env 0 ?new w"
  assume r: "row \<in> set (seen_jobs (run_scraping_cycle strptime env w))"
  have t: "telegram (run_scraping_cycle strptime env w)
             = telegram w @ map (\<lambda>(n, job). (job, post_result env n = Post_ok)) (enumerate 0 ?new)"
    by (rule telegram_run_scraping_cycle)
  from r have "row \<in> set (seen_jobs w) \<or> row \<in> set (seen_jobs ?w)"
    using set_table_cleanup [of "delete_result env" "clock_cleanup env" 30 "seen_jobs ?w"]
    by (auto simp: run_scraping_cycle_def Let_def split: if_splits)
  then consider "row \<in> set (seen_jobs w)"
    | n job where "(n, job) \<in> set (enumerate 0 ?new)" "post_result env n = Post_ok"
        "row = inserted_row (utc_clock env n) job"
    using row_after_notify_loop [of row env 0 ?new w] by auto
  then show "row \<in> set (seen_jobs w)
         \<or> (\<exists>k job. (job, True) \<in> set (telegram (run_scraping_cycle strptime env w))
                    \<and> post_result env k = Post_ok \<and> row = inserted_row (utc_clock env k) job)"
  proof cases
    case 1
    then show ?thesis by simp
  next
    case 2
    from 2(1,2) have "(job, True) \<in> set (telegram (run_scraping_cycle strptime env w))"
      unfolding t by force
    with 2 show ?thesis
      by blast
  qed
qed

lemma timestamp_example_later:
  "current_timestamp (mk_datetime 2024 1 15 17 45 0 0) = ''2024-01-15 17:45:00''"
  by (simp add: current_timestamp_def date_text_def time_text_def mk_2024_1_15 toordinal_def
      us_per_day_def ord2ymd_def DAYS_BEFORE_MONTH_def DAYS_IN_MONTH_def Let_def
      pad2_def pad4_def digit_def hour_def minute_def second_def)

text \<open>
  The job of the examples recorded into a ledger that holds a row of another job: that
  row stays, and the ledger has one row for the recorded job. And the one row in the
  ledger after the cycle of the examples is the row inserted for the job it posted.
\<close>

theorem ledger_entry_change_paths_witness:
  "job_id (to_job_data job_a) \<noteq> ''''
   \<and> filter (\<lambda>row. job_id row = '''')
        (mark_job_as_seen Sqlite_ok (mk_datetime 2024 1 15 17 30 0 0) (to_job_data job_a) [row_noid])
       = [row_noid]
   \<and> filter (\<lambda>row. job_id row = job_id (to_job_data job_a))
        (mark_job_as_seen Sqlite_ok (mk_datetime 2024 1 15 17 30 0 0) (to_job_data job_a) [row_noid])
       = [row_a]
   \<and> seen_jobs (run_scraping_cycle example_strptime example_env \<lparr>seen_jobs = [], telegram = []\<rparr>)
       = [row_a]
   \<and> (to_job_data job_a, True)
       \<in> set (telegram (run_scraping_cycle example_strptime example_env
                 \<lparr>seen_jobs = [], telegram = []\<rparr>))
   \<and> post_result example_env 0 = Post_ok
   \<and> row_a = inserted_row (utc_clock example_env 0) (to_job_data job_a)"
proof -
  have n: "job_id (to_job_data job_a) \<noteq> ''''"
    by (simp add: job_id_to_job_data raw_id_a)
  have i: "inserted_row (mk_datetime 2024 1 15 17 30 0 0) (to_job_data job_a) = row_a"
    by (simp add: inserted_row_def timestamp_example to_job_data_a row_a_def)
  have r: "filter (\<lambda>row. job_id row = '''') [row_noid] = [row_noid]"
    by (simp add: row_noid_def)
  have e: "post_result example_env 0 = Post_ok"
    "utc_clock example_env 0 = mk_datetime 2024 1 15 17 30 0 0"
    by (simp_all add: example_env_def)
  note inst = ledger_entry_change_paths [of "to_job_data job_a" "''''" Sqlite_ok
      "mk_datetime 2024 1 15 17 30 0 0" "[row_noid]"]
  from inst n have "filter (\<lambda>row. job_id row = '''')
        (mark_job_as_seen Sqlite_ok (mk_datetime 2024 1 15 17 30 0 0) (to_job_data job_a) [row_noid])
       = filter (\<lambda>row. job_id row = '''') [row_noid]"
    by blast
  moreover from inst have "filter (\<lambda>row. job_id row = job_id (to_job_data job_a))
        (mark_job_as_seen Sqlite_ok (mk_datetime 2024 1 15 17 30 0 0) (to_job_data job_a) [row_noid])
       = [inserted_row (mk_datetime 2024 1 15 17 30 0 0) (to_job_data job_a)]"
    by blast
  ultimately show ?thesis
    using n e by (simp only: i r cycle_example) simp
qed

text \<open>
  Claim C7 as stated fails: recording the stored identifier again replaces the entry. The
  job of the examples is recorded at 17:30:00; a quarter of an hour later a job with the
  same identifier and another title is recorded (such a job passes the filter when it
  comes in the same batch, or when the lookup fails). The entry then has the other title
  and the later time.
\<close>

theorem recording_again_replaces_entry_counterexample:
  "mark_job_as_seen Sqlite_ok (mk_datetime 2024 1 15 17 30 0 0) (to_job_data job_a) [] = [row_a]
   \<and> job_id (to_job_data job_a2) = job_id row_a
   \<and> mark_job_as_seen Sqlite_ok (mk_datetime 2024 1 15 17 45 0 0) (to_job_data job_a2) [row_a]
       = [row_a\<lparr>title := ''SDE I, Alexa Shopping'', created_at := ''2024-01-15 17:45:00''\<rparr>]
   \<and> title row_a \<noteq> ''SDE I, Alexa Shopping''
   \<and> created_at row_a \<noteq> ''2024-01-15 17:45:00''"
  by (simp add: mark_job_as_seen_def timestamp_example timestamp_example_later
      to_job_data_a to_job_data_a2 row_a_def)

subsection \<open>The cleanup (claim C6)\<close>

lemma text_less_take: "text_less (take n a) (take n b) \<Longrightarrow> text_less a b"
proof (induction n arbitrary: a b)
  case 0
  then show ?case by simp
next
  case (Suc n)
  show ?case
  proof (cases a)
    case Nil
    with Suc.prems show ?thesis
      by (cases b) simp_all
  next
    case (Cons x xs)
    with Suc.prems show ?thesis
      by (cases b) (auto dest: Suc.IH)
  qed
qed

lemma text_less_asym: "text_less a b \<Longrightarrow> \<not> text_less b a"
  by (induction a b rule: text_less.induct) auto

lemma length_date_text: "length (date_text t) = 10"
  by (simp add: date_text_def pad2_def pad4_def split: prod.splits)

lemma date_part_isoformat: "date_part (isoformat t) = date_text t"
  by (simp add: date_part_def isoformat_def length_date_text)

lemma date_part_current_timestamp: "date_part (current_timestamp t) = date_text t"
  by (simp add: date_part_def current_timestamp_def length_date_text)

text \<open>
  Claim C6, as the code has it. When sqlite runs and the cutoff, the wall clock minus
  the given number of days, is a date in range, \<^verbatim>\<open>cleanup_old_jobs\<close> returns nothing
  (\<^verbatim>\<open>None\<close>): the number of deleted rows goes to the log, and only if it is positive.
  The rows it leaves are a selection of the rows, each as it was. Every row whose
  timestamp has a date earlier than the date of the cutoff is deleted, and every row
  whose timestamp has a date later than the date of the cutoff stays; the dates are
  compared as sqlite compares texts. Nothing is said here of a row with the date of the
  cutoff itself.
\<close>

theorem cleanup_old_jobs_by_date:
  assumes "minus_days now days_old = Some cutoff"
  shows "returned (cleanup_old_jobs Sqlite_ok now days_old db) = None
         \<and> (\<exists>P. table (cleanup_old_jobs Sqlite_ok now days_old db) = filter P db)
         \<and> (\<forall>row \<in> set db.
               text_less (date_part (created_at row)) (date_part (isoformat cutoff))
               \<longrightarrow> row \<notin> set (table (cleanup_old_jobs Sqlite_ok now days_old db)))
         \<and> (\<forall>row \<in> set db.
               text_less (date_part (isoformat cutoff)) (date_part (created_at row))
               \<longrightarrow> row \<in> set (table (cleanup_old_jobs Sqlite_ok now days_old db)))
         \<and> logged (cleanup_old_jobs Sqlite_ok now days_old db)
             = (let deleted = length db - length (table (cleanup_old_jobs Sqlite_ok now days_old db))
                in if deleted > 0 then [Cleaned_up deleted] else [])"
proof -
  let ?doomed = "\<lambda>row. text_less (created_at row) (isoformat cutoff)"
  have t: "table (cleanup_old_jobs Sqlite_ok now days_old db) = filter (\<lambda>row. \<not> ?doomed row) db"
    and l: "logged (cleanup_old_jobs Sqlite_ok now days_old db)
              = (if length (filter ?doomed db) > 0 then [Cleaned_up (length (filter ?doomed db))] else [])"
    and r: "returned (cleanup_old_jobs Sqlite_ok now days_old db) = None"
    by (simp_all add: cleanup_old_jobs_def assms Let_def)
  have n: "length db - length (filter (\<lambda>row. \<not> ?doomed row) db) = length (filter ?doomed db)"
    using sum_length_filter_compl [of ?doomed db] by simp
  have early: "?doomed row"
    if "text_less (date_part (created_at row)) (date_part (isoformat cutoff))" for row
    using that by (auto simp: date_part_def intro: text_less_take)
  have late: "\<not> ?doomed row"
    if "text_less (date_part (isoformat cutoff)) (date_part (created_at row))" for row
    using that by (auto simp: date_part_def dest: text_less_take text_less_asym)
  have sel: "\<exists>P. table (cleanup_old_jobs Sqlite_ok now days_old db) = filter P db"
    using t by blast
  have gone: "\<forall>row \<in> set db.
      text_less (date_part (created_at row)) (date_part (isoformat cutoff))
      \<longrightarrow> row \<notin> set (table (cleanup_old_jobs Sqlite_ok now days_old db))"
    using early by (auto simp: t)
  have stays: "\<forall>row \<in> set db.
      text_less (date_part (isoformat cutoff)) (date_part (created_at row))
      \<longrightarrow> row \<in> set (table (cleanup_old_jobs Sqlite_ok now days_old db))"
    using late by (auto simp: t)
  have log: "logged (cleanup_old_jobs Sqlite_ok now days_old db)
      = (let deleted = length db - length (table (cleanup_old_jobs Sqlite_ok now days_old db))
         in if deleted > 0 then [Cleaned_up deleted] else [])"
    by (simp add: l t n Let_def)
  from r sel gone stays log show ?thesis
    by (intro conjI)
qed
lemmas text_defs =
  current_timestamp_def isoformat_def date_text_def time_text_def toordinal_def ord2ymd_def
  Let_def pad2_def pad4_def pad6_def digit_def hour_def minute_def second_def microsecond_def

lemma created_at_row_old: "created_at row_old = ''2023-12-01 08:00:00''"
  by (simp add: row_old_def calendar_defs text_defs)

lemma created_at_row_late: "created_at row_late = ''2023-12-16 23:00:00''"
  by (simp add: row_late_def calendar_defs text_defs)

lemma cutoff_february:
  "minus_days (mk_datetime 2024 2 10 0 5 0 0) 30 = Some (mk_datetime 2024 1 11 0 5 0 0)"
  by (simp add: minus_days_def max_ordinal_def calendar_defs)

lemma cutoff_january:
  "minus_days (mk_datetime 2024 1 15 0 5 0 0) 30 = Some (mk_datetime 2023 12 16 0 5 0 0)"
  by (simp add: minus_days_def max_ordinal_def calendar_defs)

lemma isoformat_january_11: "isoformat (mk_datetime 2024 1 11 0 5 0 0) = ''2024-01-11T00:05:00''"
  by (simp add: calendar_defs text_defs)

lemma isoformat_december_16: "isoformat (mk_datetime 2023 12 16 0 5 0 0) = ''2023-12-16T00:05:00''"
  by (simp add: calendar_defs text_defs)

text \<open>
  A cleanup at 00:05 on 10 February 2024 with the horizon of 30 days: the cutoff is
  11 January. The row of 1 December is deleted, the row of 15 January stays, the number
  1 is logged and nothing is returned.
\<close>

theorem cleanup_old_jobs_by_date_witness:
  "minus_days (mk_datetime 2024 2 10 0 5 0 0) 30 = Some (mk_datetime 2024 1 11 0 5 0 0)
   \<and> text_less (date_part (created_at row_old)) (date_part (isoformat (mk_datetime 2024 1 11 0 5 0 0)))
   \<and> text_less (date_part (isoformat (mk_datetime 2024 1 11 0 5 0 0))) (date_part (created_at row_a))
   \<and> table (cleanup_old_jobs Sqlite_ok (mk_datetime 2024 2 10 0 5 0 0) 30 [row_old, row_a]) = [row_a]
   \<and> logged (cleanup_old_jobs Sqlite_ok (mk_datetime 2024 2 10 0 5 0 0) 30 [row_old, row_a])
       = [Cleaned_up 1]
   \<and> returned (cleanup_old_jobs Sqlite_ok (mk_datetime 2024 2 10 0 5 0 0) 30 [row_old, row_a]) = None"
proof -
  let ?res = "cleanup_old_jobs Sqlite_ok (mk_datetime 2024 2 10 0 5 0 0) 30 [row_old, row_a]"
  have old: "text_less (date_part (created_at row_old))
               (date_part (isoformat (mk_datetime 2024 1 11 0 5 0 0)))"
    by (simp add: created_at_row_old isoformat_january_11 date_part_def)
  have new: "text_less (date_part (isoformat (mk_datetime 2024 1 11 0 5 0 0)))
               (date_part (created_at row_a))"
    by (simp add: row_a_def isoformat_january_11 date_part_def)
  note inst = cleanup_old_jobs_by_date [OF cutoff_february, of "[row_old, row_a]"]
  from inst obtain P where P: "table ?res = filter P [row_old, row_a]"
    by blast
  from inst old have "row_old \<notin> set (table ?res)"
    by simp
  moreover from inst new have "row_a \<in> set (table ?res)"
    by simp
  ultimately have t: "table ?res = [row_a]"
    unfolding P by (auto split: if_splits)
  from inst have "logged ?res = [Cleaned_up 1]"
    unfolding t by simp
  moreover from inst have "returned ?res = None"
    by blast
  ultimately show ?thesis
    using cutoff_february old new t by simp
qed

text \<open>
  Claim C6 as stated fails twice over in one cleanup, at 00:05 on 15 January 2024 with
  the horizon of 30 days, on a machine whose local time is UTC. The cutoff is 00:05:00
  on 16 December; the one row of the ledger was recorded at 23:00:00 that day, after
  the cutoff. Its timestamp is the text \<^verbatim>\<open>2023-12-16 23:00:00\<close>, the cutoff is passed to
  sqlite as the text \<^verbatim>\<open>2023-12-16T00:05:00\<close>, and a blank sorts before the letter T: the
  row is deleted. And the method returns \<^verbatim>\<open>None\<close>, not the number 1 of deleted rows,
  which it only logs.
\<close>

theorem cleanup_old_jobs_counterexample:
  "minus_days (mk_datetime 2024 1 15 0 5 0 0) 30 = Some (mk_datetime 2023 12 16 0 5 0 0)
   \<and> mk_datetime 2023 12 16 0 5 0 0 < mk_datetime 2023 12 16 23 0 0 0
   \<and> created_at row_late = current_timestamp (mk_datetime 2023 12 16 23 0 0 0)
   \<and> created_at row_late = ''2023-12-16 23:00:00''
   \<and> isoformat (mk_datetime 2023 12 16 0 5 0 0) = ''2023-12-16T00:05:00''
   \<and> cleanup_old_jobs Sqlite_ok (mk_datetime 2024 1 15 0 5 0 0) 30 [row_late]
       = \<lparr>table = [], logged = [Cleaned_up 1], returned = None\<rparr>
   \<and> returned (cleanup_old_jobs Sqlite_ok (mk_datetime 2024 1 15 0 5 0 0) 30 [row_late]) \<noteq> Some 1"
proof -
  have "mk_datetime 2023 12 16 0 5 0 0 < mk_datetime 2023 12 16 23 0 0 0"
    by (simp add: calendar_defs)
  moreover have "created_at row_late = current_timestamp (mk_datetime 2023 12 16 23 0 0 0)"
    by (simp add: row_late_def)
  moreover have "cleanup_old_jobs Sqlite_ok (mk_datetime 2024 1 15 0 5 0 0) 30 [row_late]
       = \<lparr>table = [], logged = [Cleaned_up 1], returned = None\<rparr>"
    by (simp add: cleanup_old_jobs_def cutoff_january isoformat_december_16 created_at_row_late)
  ultimately show ?thesis
    using cutoff_january created_at_row_late isoformat_december_16 by simp
qed

end
